theory Spec2Isabelle
  imports Main "HOL-Library.Word"
begin

section \<open>JavaScript strings, values and errors\<close>

text \<open>
  A JavaScript string is a sequence of UTF-16 code units. String literals of the source
  are ASCII; \<open>lit\<close> turns an ASCII literal into its code units.
\<close>

type_synonym js_string = "16 word list"

definition lit :: "string \<Rightarrow> js_string" where
  "lit cs = map (\<lambda>c. of_nat (of_char c)) cs"

text \<open>
  The exceptions the program can meet: \<open>URIError\<close> from \<open>encodeURIComponent\<close>,
  \<open>TypeError\<close> from reading a property of \<open>null\<close> or \<open>undefined\<close>, and the rejection
  of an HTTP request (with its message).
\<close>

datatype js_error = URIError | TypeError | AxiosError js_string

text \<open>
  The values a response body can hold after axios has parsed it, together with
  \<open>undefined\<close> and the built-in function objects that a property read can return.
  A number of a body is given by its integer value; the program tests such a number for
  truthiness and never prints it. An object is the list of its own properties.
\<close>

datatype js_value =
    JUndefined
  | JNull
  | JBool bool
  | JNum int
  | JStr js_string
  | JArr "js_value list"
  | JObj "(js_string \<times> js_value) list"
  | JBuiltin string

text \<open>ToBoolean.\<close>

fun truthy :: "js_value \<Rightarrow> bool" where
  "truthy JUndefined = False"
| "truthy JNull = False"
| "truthy (JBool b) = b"
| "truthy (JNum n) = (n \<noteq> 0)"
| "truthy (JStr s) = (s \<noteq> [])"
| "truthy (JArr xs) = True"
| "truthy (JObj fs) = True"
| "truthy (JBuiltin f) = True"

text \<open>What \<open>??\<close> falls through on.\<close>

fun nullish :: "js_value \<Rightarrow> bool" where
  "nullish JUndefined = True"
| "nullish JNull = True"
| "nullish v = False"

fun isString :: "js_value \<Rightarrow> bool" where
  "isString (JStr s) = True"
| "isString v = False"

fun isArray :: "js_value \<Rightarrow> bool" where
  "isArray (JArr xs) = True"
| "isArray v = False"

text \<open>
  Reading a property \<open>v.p\<close> for a base value that is neither \<open>null\<close> nor \<open>undefined\<close>:
  an own property of an object, otherwise what the prototype chain holds. The program
  reads the names \<open>docs\<close>, \<open>entries\<close> and \<open>value\<close> dynamically; among these the built-in
  prototypes define only \<open>Array.prototype.entries\<close>, so inherited properties are modelled
  for these three names.
\<close>

fun lookup_prop :: "js_value \<Rightarrow> js_string \<Rightarrow> js_value" where
  "lookup_prop (JObj fs) p = (case map_of fs p of Some v \<Rightarrow> v | None \<Rightarrow> JUndefined)"
| "lookup_prop (JArr xs) p =
     (if p = lit ''entries'' then JBuiltin ''Array.prototype.entries'' else JUndefined)"
| "lookup_prop v p = JUndefined"

text \<open>The property read itself: a TypeError on \<open>null\<close> and \<open>undefined\<close>.\<close>

definition get_prop :: "js_value \<Rightarrow> js_string \<Rightarrow> js_error + js_value" where
  "get_prop v p = (if nullish v then Inl TypeError else Inr (lookup_prop v p))"

text \<open>\<open>a || b\<close> on values.\<close>

definition js_or :: "js_value \<Rightarrow> js_value \<Rightarrow> js_value" where
  "js_or a b = (if truthy a then a else b)"

subsection \<open>Numbers that are printed\<close>

text \<open>
  The numbers of the typed records and the page number are the safe integers
  (\<open>Number.isSafeInteger\<close>): a sign and a magnitude below \<open>2^53\<close>, which is how a
  double holds them, minus zero included. Every integer in this range is a double, and
  Number::toString prints it with all its decimal digits. Other doubles (fractions,
  magnitudes from \<open>2^53\<close> on, NaN, the infinities) are outside the model.
\<close>

datatype safe_integer = NonNegative "53 word" | Negative "53 word"

fun magnitude :: "safe_integer \<Rightarrow> nat" where
  "magnitude (NonNegative m) = unat m"
| "magnitude (Negative m) = unat m"

text \<open>ToBoolean of a number: false for zero and minus zero.\<close>

definition number_truthy :: "safe_integer \<Rightarrow> bool" where
  "number_truthy n = (magnitude n \<noteq> 0)"

text \<open>The decimal digits of a natural number.\<close>

function digits :: "nat \<Rightarrow> js_string" where
  "digits n = (if n < 10 then [0x30 + of_nat n] else digits (n div 10) @ [0x30 + of_nat (n mod 10)])"
  by pat_completeness auto
termination
  by (relation "measure id") auto

text \<open>
  Number::toString of a safe integer: its decimal digits, with a minus sign for a
  negative one; minus zero prints as \<open>0\<close>.
\<close>

fun numberToString :: "safe_integer \<Rightarrow> js_string" where
  "numberToString (NonNegative m) = digits (unat m)"
| "numberToString (Negative m) = (if m = 0 then lit ''0'' else lit ''-'' @ digits (unat m))"

subsection \<open>encodeURIComponent\<close>

text \<open>
  The characters \<open>encodeURIComponent\<close> leaves alone: letters, digits and
  \<open>- _ . ! ~ * ' ( )\<close>.
\<close>

definition uriUnescaped :: js_string where
  "uriUnescaped =
     lit (''ABCDEFGHIJKLMNOPQRSTUVWXYZabcdefghijklmnopqrstuvwxyz0123456789'' @ ''-_.!~*'()'')"

definition hexDigit :: "nat \<Rightarrow> 16 word" where
  "hexDigit n = lit ''0123456789ABCDEF'' ! n"

text \<open>One octet as \<open>%XX\<close>, in upper-case hexadecimal.\<close>

definition percent :: "nat \<Rightarrow> js_string" where
  "percent octet = lit ''%'' @ [hexDigit (octet div 16), hexDigit (octet mod 16)]"

text \<open>The UTF-8 octets of a code point.\<close>

definition utf8 :: "nat \<Rightarrow> nat list" where
  "utf8 cp =
     (if cp < 0x80 then [cp]
      else if cp < 0x800 then [0xC0 + cp div 64, 0x80 + cp mod 64]
      else if cp < 0x10000 then
        [0xE0 + cp div 4096, 0x80 + cp div 64 mod 64, 0x80 + cp mod 64]
      else
        [0xF0 + cp div 262144, 0x80 + cp div 4096 mod 64, 0x80 + cp div 64 mod 64,
         0x80 + cp mod 64])"

definition isLeadSurrogate :: "16 word \<Rightarrow> bool" where
  "isLeadSurrogate c = (0xD800 \<le> c \<and> c \<le> 0xDBFF)"

definition isTrailSurrogate :: "16 word \<Rightarrow> bool" where
  "isTrailSurrogate c = (0xDC00 \<le> c \<and> c \<le> 0xDFFF)"

definition pairCodePoint :: "16 word \<Rightarrow> 16 word \<Rightarrow> nat" where
  "pairCodePoint hi lo = (unat hi - 0xD800) * 0x400 + (unat lo - 0xDC00) + 0x10000"

definition emit :: "js_string \<Rightarrow> js_error + js_string \<Rightarrow> js_error + js_string" where
  "emit out r = (case r of Inl e \<Rightarrow> Inl e | Inr rest \<Rightarrow> Inr (out @ rest))"

text \<open>
  The Encode operation of ECMAScript with the unescaped set above: an unescaped code unit
  is copied; otherwise the code point at this position is read (a surrogate pair is one
  code point), an unpaired surrogate throws URIError, and every UTF-8 octet of the code
  point is written as \<open>%XX\<close>.
\<close>

fun encodeURIComponent :: "js_string \<Rightarrow> js_error + js_string" where
  "encodeURIComponent [] = Inr []"
| "encodeURIComponent (c # cs) =
     (if c \<in> set uriUnescaped then emit [c] (encodeURIComponent cs)
      else if isLeadSurrogate c then
        (case cs of
           [] \<Rightarrow> Inl URIError
         | d # ds \<Rightarrow>
             if isTrailSurrogate d
             then emit (concat (map percent (utf8 (pairCodePoint c d)))) (encodeURIComponent ds)
             else Inl URIError)
      else if isTrailSurrogate c then Inl URIError
      else emit (concat (map percent (utf8 (unat c)))) (encodeURIComponent cs))"

text \<open>
  String.prototype.isWellFormed: no surrogate code unit stands outside a
  lead-trail pair.
\<close>

fun isWellFormed :: "js_string \<Rightarrow> bool" where
  "isWellFormed [] = True"
| "isWellFormed (c # cs) =
     (if isLeadSurrogate c then
        (case cs of [] \<Rightarrow> False | d # ds \<Rightarrow> isTrailSurrogate d \<and> isWellFormed ds)
      else \<not> isTrailSurrogate c \<and> isWellFormed cs)"

section \<open>Requests\<close>

text \<open>
  \<open>axios.get(url)\<close> against a server: the promise is rejected (\<open>Inl\<close>) or fulfilled with a
  response, of which the program reads only \<open>data\<close> (\<open>Inr\<close>). An asynchronous function
  is modelled by the GET requests it issues, in order, and by how its promise settles.
\<close>

type_synonym 'a http = "js_string \<Rightarrow> js_error + 'a"

type_synonym 'a fetched = "js_string list \<times> (js_error + 'a)"

section \<open>The search view (components/datafetching.tsx)\<close>

datatype queryType = QTitle | QAuthor | QGeneral | QAuthors

text \<open>The string each mode is in the source: "title", "author", "q", "authors".\<close>

fun queryType_string :: "queryType \<Rightarrow> js_string" where
  "queryType_string QTitle = lit ''title''"
| "queryType_string QAuthor = lit ''author''"
| "queryType_string QGeneral = lit ''q''"
| "queryType_string QAuthors = lit ''authors''"

text \<open>
  \<open>fetchBooks({queryType, search, page = 1})\<close>. An empty search string returns the empty
  array at once. Otherwise the URL is built (which can throw in \<open>encodeURIComponent\<close>),
  requested, and \<open>res.data.docs ?? res.data.entries ?? []\<close> is returned.
\<close>

definition fetchBooks_url :: "queryType \<Rightarrow> js_string \<Rightarrow> safe_integer \<Rightarrow> js_error + js_string" where
  "fetchBooks_url queryType search page =
     (if queryType = QAuthors then
        (case encodeURIComponent search of
           Inl e \<Rightarrow> Inl e
         | Inr enc \<Rightarrow> Inr (lit ''https://openlibrary.org/search/authors.json?q='' @ enc))
      else
        (case encodeURIComponent search of
           Inl e \<Rightarrow> Inl e
         | Inr enc \<Rightarrow>
             Inr (lit ''https://openlibrary.org/search.json?'' @ queryType_string queryType
                  @ lit ''='' @ enc @ lit ''&page='' @ numberToString page)))"

definition fetchBooks_return :: "js_value \<Rightarrow> js_error + js_value" where
  "fetchBooks_return data =
     (case get_prop data (lit ''docs'') of
        Inl e \<Rightarrow> Inl e
      | Inr docs \<Rightarrow>
          if \<not> nullish docs then Inr docs
          else
            (case get_prop data (lit ''entries'') of
               Inl e \<Rightarrow> Inl e
             | Inr entries \<Rightarrow> if \<not> nullish entries then Inr entries else Inr (JArr [])))"

definition fetchBooks ::
  "js_value http \<Rightarrow> queryType \<Rightarrow> js_string \<Rightarrow> safe_integer option \<Rightarrow> js_value fetched" where
  "fetchBooks http queryType search page_arg =
     (let page = (case page_arg of None \<Rightarrow> NonNegative 1 | Some p \<Rightarrow> p) in
      if search = [] then ([], Inr (JArr []))
      else
        (case fetchBooks_url queryType search page of
           Inl e \<Rightarrow> ([], Inl e)
         | Inr url \<Rightarrow>
             (case http url of
                Inl e \<Rightarrow> ([url], Inl e)
              | Inr data \<Rightarrow> ([url], fetchBooks_return data))))"

text \<open>
  The book summaries of a search response, as the source declares them (type \<open>Book\<close>);
  an optional field is an \<open>option\<close>.
\<close>

record Book =
  key :: js_string
  title :: "js_string option"
  name :: "js_string option"
  author_name :: "js_string list option"
  first_publish_year :: "safe_integer option"
  cover_i :: "safe_integer option"
  language :: "js_string list option"
  publisher :: "js_string list option"
  number_of_pages_median :: "safe_integer option"
  isbn :: "js_string list option"

text \<open>\<open>s.split(sep)\<close> for a separator of one code unit: never the empty array.\<close>

fun js_split :: "16 word \<Rightarrow> js_string \<Rightarrow> js_string list" where
  "js_split sep [] = [[]]"
| "js_split sep (c # cs) =
     (if c = sep then [] # js_split sep cs
      else (case js_split sep cs of [] \<Rightarrow> [[c]] | s # ss \<Rightarrow> (c # s) # ss))"

text \<open>\<open>xs.pop()\<close>: the last element, \<open>undefined\<close> on the empty array.\<close>

definition js_pop :: "'a list \<Rightarrow> 'a option" where
  "js_pop xs = (if xs = [] then None else Some (last xs))"

text \<open>A \<open>string | undefined\<close> inside a template literal.\<close>

definition template_string :: "js_string option \<Rightarrow> js_string" where
  "template_string v = (case v of None \<Rightarrow> lit ''undefined'' | Some s \<Rightarrow> s)"

text \<open>\<open>xs.join(sep)\<close> on an array of strings.\<close>

fun join :: "js_string \<Rightarrow> js_string list \<Rightarrow> js_string" where
  "join sep [] = []"
| "join sep [x] = x"
| "join sep (x # y # ys) = x @ sep @ join sep (y # ys)"

text \<open>\<open>xs.slice(start, end)\<close> for indices that are not negative.\<close>

definition slice :: "nat \<Rightarrow> nat \<Rightarrow> 'a list \<Rightarrow> 'a list" where
  "slice start end xs = drop start (take end xs)"

text \<open>
  What a card shows: the link target, the image and its alternative text, the heading
  (\<open>book.title ?? book.name\<close>) and the author line. The lower block of a card (year,
  first publisher, languages) is further markup of the same kind and is not part of the
  model.
\<close>

record card =
  card_href :: js_string
  card_img_src :: js_string
  card_img_alt :: js_string
  card_heading :: "js_string option"
  card_byline :: "js_string option"

definition BookCard_coverUrl :: "Book \<Rightarrow> js_string" where
  "BookCard_coverUrl book =
     (case cover_i book of
        Some n \<Rightarrow>
          if number_truthy n
          then lit ''https://covers.openlibrary.org/b/id/'' @ numberToString n @ lit ''-M.jpg''
          else lit ''https://via.placeholder.com/200x300?text=No+Cover''
      | None \<Rightarrow> lit ''https://via.placeholder.com/200x300?text=No+Cover'')"

definition BookCard_workId :: "Book \<Rightarrow> js_string option" where
  "BookCard_workId book = js_pop (js_split 0x2F (Book.key book))"

definition BookCard :: "Book \<Rightarrow> card" where
  "BookCard book =
     \<lparr>card_href = lit ''/book/'' @ template_string (BookCard_workId book),
      card_img_src = BookCard_coverUrl book,
      card_img_alt = (case Book.title book of Some t \<Rightarrow> t | None \<Rightarrow> lit ''Book cover''),
      card_heading = (case Book.title book of Some t \<Rightarrow> Some t | None \<Rightarrow> Book.name book),
      card_byline =
        (case author_name book of
           Some names \<Rightarrow> Some (lit ''By '' @ join (lit '', '') names)
         | None \<Rightarrow> None)\<rparr>"

text \<open>What \<open>useQuery\<close> hands to a component: the data, if any, and the two flags.\<close>

record 'a useQuery_result =
  data :: "'a option"
  isLoading :: bool
  isError :: bool

text \<open>The options the search view gives to \<open>useQuery\<close>.\<close>

definition DataFetching_queryFn :: "js_value http \<Rightarrow> queryType \<Rightarrow> js_string \<Rightarrow> js_value fetched" where
  "DataFetching_queryFn http queryType search = fetchBooks http queryType search None"

definition DataFetching_enabled :: "js_string \<Rightarrow> bool" where
  "DataFetching_enabled search = (search \<noteq> [])"

text \<open>
  What the search view renders below the controls: the loading text, the error text, the
  grid of cards (each with its React key) and the no-results text.
\<close>

record search_view =
  view_loading :: "js_string option"
  view_error :: "js_string option"
  view_grid :: "(js_string \<times> card) list"
  view_no_results :: "js_string option"

definition DataFetching :: "Book list useQuery_result \<Rightarrow> search_view" where
  "DataFetching q =
     \<lparr>view_loading = (if isLoading q then Some (lit ''Loading books...'') else None),
      view_error =
        (if isError q then Some (lit ''Failed to fetch books. Please try again.'') else None),
      view_grid =
        (case data q of
           None \<Rightarrow> []
         | Some items \<Rightarrow> map (\<lambda>item. (Book.key item, BookCard item)) (slice 0 15 items)),
      view_no_results =
        (if (case data q of None \<Rightarrow> False | Some items \<Rightarrow> length items = 0)
            \<and> \<not> isLoading q \<and> \<not> isError q
         then Some (lit ''No books found. Try a different search term.'')
         else None)\<rparr>"

section \<open>The detail page (book/[id]/page.tsx)\<close>

text \<open>
  The types \<open>BookDetails\<close> and \<open>Author\<close> as the source declares them. The source declares
  \<open>description\<close> and \<open>bio\<close> as optional strings and then tests at run time whether they
  are strings, so both are values here (\<open>JUndefined\<close> when absent).
\<close>

record key_ref =
  key :: js_string

record author_ref =
  author :: key_ref

record BookDetails =
  key :: js_string
  title :: js_string
  covers :: "safe_integer list option"
  description :: js_value
  first_publish_date :: "js_string option"
  subjects :: "js_string list option"
  subject_places :: "js_string list option"
  subject_times :: "js_string list option"
  authors :: "author_ref list option"
  number_of_pages :: "safe_integer option"
  publishers :: "js_string list option"
  publish_places :: "js_string list option"
  isbn_10 :: "js_string list option"
  isbn_13 :: "js_string list option"
  physical_format :: "js_string option"
  languages :: "key_ref list option"

record Author =
  name :: js_string
  birth_date :: "js_string option"
  death_date :: "js_string option"
  bio :: js_value

text \<open>The route parameter \<open>params.id\<close>: a string, an array of strings, or missing.\<close>

datatype route_param = ParamString js_string | ParamArray "js_string list" | ParamUndefined

fun BookPage_bookId :: "route_param \<Rightarrow> js_string" where
  "BookPage_bookId (ParamString s) = s"
| "BookPage_bookId p = []"

text \<open>The query for the book itself.\<close>

definition book_queryFn :: "BookDetails http \<Rightarrow> js_string \<Rightarrow> BookDetails fetched" where
  "book_queryFn http bookId =
     (let url = lit ''https://openlibrary.org/works/'' @ bookId @ lit ''.json''
      in ([url], http url))"

definition book_enabled :: "js_string \<Rightarrow> bool" where
  "book_enabled bookId = (bookId \<noteq> [])"

text \<open>
  A list of outcomes taken together: all the values in order when every outcome is a
  value, otherwise the first error.
\<close>

fun collect :: "(js_error + 'a) list \<Rightarrow> js_error + 'a list" where
  "collect [] = Inr []"
| "collect (r # rs) =
     (case r of
        Inl e \<Rightarrow> Inl e
      | Inr v \<Rightarrow> (case collect rs of Inl e \<Rightarrow> Inl e | Inr vs \<Rightarrow> Inr (v # vs)))"

text \<open>
  Time, for the requests that run side by side. Time is counted in steps; a promise is
  given by the time at which it settles and by its outcome. A server takes
  \<open>latency url\<close> steps to settle a request, so a request issued at time \<open>now\<close> settles at
  \<open>now + latency url\<close>.
\<close>

type_synonym time = nat

type_synonym 'a promise = "time \<times> (js_error + 'a)"

type_synonym latency = "js_string \<Rightarrow> nat"

definition axios_get :: "'a http \<Rightarrow> latency \<Rightarrow> time \<Rightarrow> js_string \<Rightarrow> 'a promise" where
  "axios_get http latency now url = (now + latency url, http url)"

text \<open>
  The rejection that comes first in time among the promises of an array, with its time;
  of two rejections at the same time the one earlier in the array.
\<close>

fun first_rejection :: "'a promise list \<Rightarrow> (time \<times> js_error) option" where
  "first_rejection [] = None"
| "first_rejection ((t, r) # ps) =
     (case r of
        Inr v \<Rightarrow> first_rejection ps
      | Inl e \<Rightarrow>
          (case first_rejection ps of
             None \<Rightarrow> Some (t, e)
           | Some (t', e') \<Rightarrow> if t \<le> t' then Some (t, e) else Some (t', e')))"

text \<open>
  \<open>Promise.all(promises)\<close>, called at time \<open>now\<close>. When a promise is rejected, the
  result is rejected at the time of the first rejection, with its error, whatever the
  other promises do later. Otherwise the result is fulfilled once every promise is, that
  is at the latest of their times, with all the values in order.
\<close>

definition Promise_all :: "time \<Rightarrow> 'a promise list \<Rightarrow> 'a list promise" where
  "Promise_all now promises =
     (case first_rejection promises of
        Some (t, e) \<Rightarrow> (t, Inl e)
      | None \<Rightarrow> (fold max (map fst promises) now, collect (map snd promises)))"

text \<open>
  The query for the authors, run at time \<open>now\<close>. \<open>book\<close> is the data of the first query
  (\<open>None\<close> until it has resolved); \<open>book?.authors\<close> is an array or \<open>undefined\<close>, and an
  array is truthy. \<open>map\<close> calls \<open>axios.get\<close> for every reference in one synchronous run,
  so every request is issued at \<open>now\<close>. The result holds the requests with the times at
  which they are issued, and the promise the function returns.
\<close>

type_synonym 'a timed_fetched = "(js_string \<times> time) list \<times> 'a promise"

definition book_authors :: "BookDetails option \<Rightarrow> author_ref list option" where
  "book_authors book = (case book of None \<Rightarrow> None | Some b \<Rightarrow> authors b)"

definition author_url :: "author_ref \<Rightarrow> js_string" where
  "author_url r = lit ''https://openlibrary.org'' @ key_ref.key (author r) @ lit ''.json''"

definition authors_queryFn ::
  "Author http \<Rightarrow> latency \<Rightarrow> time \<Rightarrow> BookDetails option \<Rightarrow> Author list timed_fetched" where
  "authors_queryFn http latency now book =
     (case book_authors book of
        None \<Rightarrow> ([], (now, Inr []))
      | Some refs \<Rightarrow>
          (let authorPromises = map (\<lambda>r. axios_get http latency now (author_url r)) refs
           in (map (\<lambda>r. (author_url r, now)) refs, Promise_all now authorPromises)))"

definition authors_enabled :: "BookDetails option \<Rightarrow> bool" where
  "authors_enabled book = (case book_authors book of None \<Rightarrow> False | Some refs \<Rightarrow> True)"

text \<open>
  The value of \<open>c && element\<close> in the markup: the element when \<open>c\<close> is truthy, otherwise
  \<open>c\<close> itself (of which React shows nothing for \<open>undefined\<close>, \<open>null\<close>, \<open>false\<close> and the
  empty string).
\<close>

datatype 'a conditional = Rendered 'a | Omitted js_value

text \<open>
  \<open>typeof v === 'string' ? v : v.value || fallback\<close>, the expression inside the
  description paragraph and inside each biography paragraph. The model keeps the value
  of the expression, which is the child handed to React; a child that is a string is
  shown as that text.
\<close>

definition string_or_value :: "js_value \<Rightarrow> js_string \<Rightarrow> js_error + js_value" where
  "string_or_value v fallback =
     (if isString v then Inr v
      else
        (case get_prop v (lit ''value'') of
           Inl e \<Rightarrow> Inl e
         | Inr w \<Rightarrow> Inr (js_or w (JStr fallback))))"

definition description_section :: "js_value \<Rightarrow> js_error + js_value conditional" where
  "description_section d =
     (if truthy d then
        (case string_or_value d (lit ''No description available'') of
           Inl e \<Rightarrow> Inl e
         | Inr t \<Rightarrow> Inr (Rendered t))
      else Inr (Omitted d))"

text \<open>One author's biography: the name as heading and the paragraph.\<close>

record bio_entry =
  bio_heading :: js_string
  bio_text :: js_value

definition author_bio :: "Author \<Rightarrow> js_error + bio_entry conditional" where
  "author_bio a =
     (if truthy (bio a) then
        (case string_or_value (bio a) (lit ''No biography available'') of
           Inl e \<Rightarrow> Inl e
         | Inr t \<Rightarrow> Inr (Rendered \<lparr>bio_heading = Author.name a, bio_text = t\<rparr>))
      else Inr (Omitted (bio a)))"

text \<open>
  The biographies block: present when \<open>authors\<close> is defined and some author has a truthy
  \<open>bio\<close>; then one entry per author, in order.
\<close>

definition bios_section :: "Author list option \<Rightarrow> js_error + bio_entry conditional list option" where
  "bios_section as =
     (case as of
        None \<Rightarrow> Inr None
      | Some xs \<Rightarrow>
          if list_ex (\<lambda>a. truthy (bio a)) xs then
            (case collect (map author_bio xs) of Inl e \<Rightarrow> Inl e | Inr es \<Rightarrow> Inr (Some es))
          else Inr None)"

definition BookPage_coverUrl :: "BookDetails \<Rightarrow> js_string" where
  "BookPage_coverUrl book =
     (case covers book of
        Some (c # cs) \<Rightarrow>
          if number_truthy c
          then lit ''https://covers.openlibrary.org/b/id/'' @ numberToString c @ lit ''-L.jpg''
          else lit ''https://via.placeholder.com/400x600?text=No+Cover''
      | _ \<Rightarrow> lit ''https://via.placeholder.com/400x600?text=No+Cover'')"

text \<open>
  What the page renders: the loading text; or the not-found message with its link
  (target and text); or the details, of which the model keeps the cover, the title, the
  author line, the description and the biographies. The grid of publishing details and
  the subject tags are further markup of the same kind and are not part of the model.
\<close>

record details_view =
  details_cover :: js_string
  details_title :: js_string
  details_byline :: "js_string option"
  details_description :: "js_value conditional"
  details_bios :: "bio_entry conditional list option"

datatype page_view =
    LoadingView js_string
  | NotFoundView js_string js_string js_string
  | DetailsView details_view

definition BookPage_byline :: "Author list option \<Rightarrow> js_string option" where
  "BookPage_byline as =
     (case as of
        None \<Rightarrow> None
      | Some xs \<Rightarrow>
          if length xs > 0 then Some (lit ''by '' @ join (lit '', '') (map Author.name xs))
          else None)"

definition BookPage ::
  "BookDetails useQuery_result \<Rightarrow> Author list useQuery_result \<Rightarrow> js_error + page_view" where
  "BookPage bookQuery authorsQuery =
     (if isLoading bookQuery \<or> isLoading authorsQuery
      then Inr (LoadingView (lit ''Loading book details...''))
      else
        (case data bookQuery of
           None \<Rightarrow> Inr (NotFoundView (lit ''Book not found'') (lit ''/'') (lit ''Return to search''))
         | Some book \<Rightarrow>
             (case description_section (description book) of
                Inl e \<Rightarrow> Inl e
              | Inr d \<Rightarrow>
                  (case bios_section (data authorsQuery) of
                     Inl e \<Rightarrow> Inl e
                   | Inr bs \<Rightarrow>
                       Inr (DetailsView
                             \<lparr>details_cover = BookPage_coverUrl book,
                              details_title = BookDetails.title book,
                              details_byline = BookPage_byline (data authorsQuery),
                              details_description = d,
                              details_bios = bs\<rparr>)))))"

section \<open>Examples\<close>

text \<open>
  Servers for the concrete instances below: one that rejects every request, one that
  answers every request with the same body, and one that rejects a single URL.
\<close>

definition offline :: "'a http" where
  "offline url = Inl (AxiosError (lit ''Network Error''))"

definition answering :: "'a \<Rightarrow> 'a http" where
  "answering body url = Inr body"

definition failing_on :: "js_string \<Rightarrow> 'a \<Rightarrow> 'a http" where
  "failing_on bad body url =
     (if url = bad then Inl (AxiosError (lit ''Request failed with status code 404''))
      else Inr body)"

text \<open>
  Latencies: every request takes five steps, except the one for a given URL, which takes
  one.
\<close>

definition quick_on :: "js_string \<Rightarrow> latency" where
  "quick_on url' url = (if url = url' then 1 else 5)"

text \<open>Two search response bodies.\<close>

definition docs_body :: js_value where
  "docs_body =
     JObj [(lit ''numFound'', JNum 1),
           (lit ''docs'', JArr [JObj [(lit ''key'', JStr (lit ''/works/OL27482W''))]])]"

definition entries_body :: js_value where
  "entries_body = JObj [(lit ''docs'', JNull), (lit ''entries'', JArr [])]"

text \<open>A book summary, a list of sixteen summaries, a book and an author.\<close>

definition example_book :: Book where
  "example_book =
     \<lparr>Book.key = lit ''/works/OL27482W'', title = Some (lit ''The Hobbit''), name = None,
      author_name = Some [lit ''J.R.R. Tolkien''], first_publish_year = Some (NonNegative 1937),
      cover_i = Some (NonNegative 14627509), language = None, publisher = None,
      number_of_pages_median = None, isbn = None\<rparr>"

definition sixteen_books :: "Book list" where
  "sixteen_books =
     map (\<lambda>c. example_book\<lparr>Book.key := lit ''/works/OL'' @ [c] @ lit ''W''\<rparr>)
       (lit ''ABCDEFGHIJKLMNOP'')"

definition example_details :: BookDetails where
  "example_details =
     \<lparr>BookDetails.key = lit ''/works/OL27482W'', title = lit ''The Hobbit'',
      covers = Some [NonNegative 14627509], description = JUndefined, first_publish_date = None,
      subjects = None, subject_places = None, subject_times = None,
      authors = Some [\<lparr>author = \<lparr>key_ref.key = lit ''/authors/OL26320A''\<rparr>\<rparr>,
                      \<lparr>author = \<lparr>key_ref.key = lit ''/authors/OL2623360A''\<rparr>\<rparr>],
      number_of_pages = None, publishers = None, publish_places = None, isbn_10 = None,
      isbn_13 = None, physical_format = None, languages = None\<rparr>"

definition example_author :: Author where
  "example_author =
     \<lparr>Author.name = lit ''J.R.R. Tolkien'', birth_date = Some (lit ''3 January 1892''),
      death_date = Some (lit ''2 September 1973''), bio = JUndefined\<rparr>"

text \<open>
  States of a query as a component sees them: still loading, not run, resolved with
  data, and failed with no data.
\<close>

definition loading :: "'a useQuery_result" where
  "loading = \<lparr>data = None, isLoading = True, isError = False\<rparr>"

definition idle :: "'a useQuery_result" where
  "idle = \<lparr>data = None, isLoading = False, isError = False\<rparr>"

definition loaded :: "'a \<Rightarrow> 'a useQuery_result" where
  "loaded d = \<lparr>data = Some d, isLoading = False, isError = False\<rparr>"

definition failed :: "'a useQuery_result" where
  "failed = \<lparr>data = None, isLoading = False, isError = True\<rparr>"

section \<open>Properties of encodeURIComponent\<close>

lemma unescaped_ascii: "c \<in> set uriUnescaped \<Longrightarrow> c < 0x80"
  by (auto simp: uriUnescaped_def lit_def)

lemma unescaped_not_surrogate:
  "c \<in> set uriUnescaped \<Longrightarrow> \<not> isLeadSurrogate c \<and> \<not> isTrailSurrogate c"
  by (drule unescaped_ascii)
     (auto simp: isLeadSurrogate_def isTrailSurrogate_def word_le_nat_alt word_less_nat_alt)

lemma emit_Inr: "emit out (Inr r) = Inr (out @ r)"
  by (simp add: emit_def)

lemma encode_wellformed: "isWellFormed s \<Longrightarrow> \<exists>e. encodeURIComponent s = Inr e"
proof (induction s rule: encodeURIComponent.induct)
  case 1
  show ?case by simp
next
  case (2 c cs)
  show ?case
  proof (cases "c \<in> set uriUnescaped")
    case True
    with unescaped_not_surrogate [OF True] "2.prems" have "isWellFormed cs" by simp
    with "2.IH"(1) True obtain e where "encodeURIComponent cs = Inr e" by blast
    with True show ?thesis by (simp add: emit_Inr)
  next
    case False
    show ?thesis
    proof (cases "isLeadSurrogate c")
      case lead: True
      with "2.prems" obtain d ds where cs: "cs = d # ds" and d: "isTrailSurrogate d"
        and wf: "isWellFormed ds"
        by (cases cs) auto
      from "2.IH"(2) [OF False lead cs d wf] obtain e where "encodeURIComponent ds = Inr e"
        by blast
      with False lead cs d show ?thesis by (simp add: emit_Inr)
    next
      case nolead: False
      with "2.prems" have nt: "\<not> isTrailSurrogate c" and wf: "isWellFormed cs" by simp_all
      from "2.IH"(3) [OF False nolead nt wf] obtain e where "encodeURIComponent cs = Inr e"
        by blast
      with False nolead nt show ?thesis by (simp add: emit_Inr)
    qed
  qed
qed

lemma encode_fails: "\<not> isWellFormed s \<Longrightarrow> encodeURIComponent s = Inl URIError"
proof (induction s rule: encodeURIComponent.induct)
  case 1
  then show ?case by simp
next
  case (2 c cs)
  show ?case
  proof (cases "c \<in> set uriUnescaped")
    case True
    with unescaped_not_surrogate [OF True] "2.prems" have "\<not> isWellFormed cs" by simp
    with "2.IH"(1) True show ?thesis by (simp add: emit_def)
  next
    case False
    show ?thesis
    proof (cases "isLeadSurrogate c")
      case lead: True
      show ?thesis
      proof (cases cs)
        case Nil
        with False lead show ?thesis by simp
      next
        case (Cons d ds)
        show ?thesis
        proof (cases "isTrailSurrogate d")
          case True
          with "2.prems" lead Cons have "\<not> isWellFormed ds" by simp
          from "2.IH"(2) [OF False lead Cons True this] False lead Cons True
          show ?thesis by (simp add: emit_def)
        next
          case False
          with \<open>c \<notin> set uriUnescaped\<close> lead Cons show ?thesis by simp
        qed
      qed
    next
      case nolead: False
      show ?thesis
      proof (cases "isTrailSurrogate c")
        case True
        with False nolead show ?thesis by simp
      next
        case nt: False
        with "2.prems" nolead have "\<not> isWellFormed cs" by simp
        from "2.IH"(3) [OF False nolead nt this] False nolead nt
        show ?thesis by (simp add: emit_def)
      qed
    qed
  qed
qed

text \<open>
  What the encoder writes: a string of unescaped characters is left as it is, and every
  result consists of unescaped characters, \<open>%\<close> and upper-case hexadecimal digits.
\<close>

lemma encode_unescaped: "set s \<subseteq> set uriUnescaped \<Longrightarrow> encodeURIComponent s = Inr s"
  by (induction s) (simp_all add: emit_def)

lemma hexDigit_alphabet: "n < 16 \<Longrightarrow> hexDigit n \<in> set (lit ''0123456789ABCDEF'')"
  unfolding hexDigit_def by (rule nth_mem) (simp add: lit_def)

lemma percent_alphabet:
  "octet < 256 \<Longrightarrow> set (percent octet) \<subseteq> set (lit ''%0123456789ABCDEF'')"
proof -
  assume "octet < 256"
  then have "octet div 16 < 16" and "octet mod 16 < 16" by simp_all
  then have "hexDigit (octet div 16) \<in> set (lit ''0123456789ABCDEF'')"
    and "hexDigit (octet mod 16) \<in> set (lit ''0123456789ABCDEF'')"
    by (simp_all only: hexDigit_alphabet)
  then show ?thesis by (auto simp: percent_def lit_def)
qed

lemma utf8_octets: "cp < 0x110000 \<Longrightarrow> \<forall>octet \<in> set (utf8 cp). octet < 256"
  by (auto simp: utf8_def)

lemma pairCodePoint_bound:
  "isLeadSurrogate c \<Longrightarrow> isTrailSurrogate d \<Longrightarrow> pairCodePoint c d < 0x110000"
proof -
  assume "isLeadSurrogate c" and "isTrailSurrogate d"
  then have "unat c \<le> 0xDBFF" and "unat d \<le> 0xDFFF"
    by (simp_all add: isLeadSurrogate_def isTrailSurrogate_def word_le_nat_alt)
  then have "(unat c - 0xD800) * 0x400 \<le> 0x3FF * 0x400" and "unat d - 0xDC00 \<le> 0x3FF"
    by simp_all
  then show ?thesis unfolding pairCodePoint_def by linarith
qed

lemma code_unit_bound: "unat (c :: 16 word) < 0x110000"
proof -
  have "unat c < 2 ^ 16" using unsigned_less [of c] by simp
  then show ?thesis by simp
qed

lemma percent_utf8_alphabet:
  assumes "cp < 0x110000"
  shows "set (concat (map percent (utf8 cp))) \<subseteq> set (lit ''%0123456789ABCDEF'')"
  using utf8_octets [OF assms] percent_alphabet by fastforce

lemma emit_alphabet:
  assumes "emit out r = Inr e" and "set out \<subseteq> A"
    and "\<And>rest. r = Inr rest \<Longrightarrow> set rest \<subseteq> A"
  shows "set e \<subseteq> A"
  using assms by (cases r) (auto simp: emit_def)

lemma encode_alphabet:
  "encodeURIComponent s = Inr e \<Longrightarrow>
     set e \<subseteq> set uriUnescaped \<union> set (lit ''%0123456789ABCDEF'')"
proof (induction s arbitrary: e rule: encodeURIComponent.induct)
  case 1
  then show ?case by simp
next
  case (2 c cs)
  let ?A = "set uriUnescaped \<union> set (lit ''%0123456789ABCDEF'')"
  show ?case
  proof (cases "c \<in> set uriUnescaped")
    case True
    with "2.prems" have "emit [c] (encodeURIComponent cs) = Inr e" by simp
    moreover from True have "set [c] \<subseteq> ?A" by simp
    ultimately show ?thesis using "2.IH"(1) [OF True] by (rule emit_alphabet)
  next
    case False
    show ?thesis
    proof (cases "isLeadSurrogate c")
      case lead: True
      with False "2.prems" obtain d ds where cs: "cs = d # ds" and d: "isTrailSurrogate d"
        and em: "emit (concat (map percent (utf8 (pairCodePoint c d)))) (encodeURIComponent ds) = Inr e"
        by (cases cs) (auto split: if_splits)
      have "set (concat (map percent (utf8 (pairCodePoint c d)))) \<subseteq> ?A"
        using percent_utf8_alphabet [OF pairCodePoint_bound [OF lead d]] by blast
      with em show ?thesis using "2.IH"(2) [OF False lead cs d] by (rule emit_alphabet)
    next
      case nolead: False
      with False "2.prems" have nt: "\<not> isTrailSurrogate c"
        and em: "emit (concat (map percent (utf8 (unat c)))) (encodeURIComponent cs) = Inr e"
        by (auto split: if_splits)
      have "set (concat (map percent (utf8 (unat c)))) \<subseteq> ?A"
        using percent_utf8_alphabet [OF code_unit_bound] by blast
      with em show ?thesis using "2.IH"(3) [OF False nolead nt] by (rule emit_alphabet)
    qed
  qed
qed

section \<open>The search request\<close>

lemma fetchBooks_url_wellformed:
  assumes "encodeURIComponent search = Inr enc"
  shows "fetchBooks_url queryType search page =
     Inr (if queryType = QAuthors
          then lit ''https://openlibrary.org/search/authors.json?q='' @ enc
          else lit ''https://openlibrary.org/search.json?'' @ queryType_string queryType
               @ lit ''='' @ enc @ lit ''&page='' @ numberToString page)"
  using assms by (simp add: fetchBooks_url_def)

lemma fetchBooks_requests:
  assumes "search \<noteq> []" and "fetchBooks_url queryType search page = Inr url"
    and "page = (case page_arg of None \<Rightarrow> NonNegative 1 | Some p \<Rightarrow> p)"
  shows "fst (fetchBooks http queryType search page_arg) = [url]"
  using assms by (simp add: fetchBooks_def split: sum.splits)

lemma fetchBooks_not_wellformed:
  assumes "search \<noteq> []" and "\<not> isWellFormed search"
  shows "fetchBooks http queryType search page_arg = ([], Inl URIError)"
  using assms encode_fails [OF assms(2)]
  by (simp add: fetchBooks_def fetchBooks_url_def)

text \<open>
  Claim C1, for search strings without an unpaired surrogate and page numbers that are
  safe integers. For every such non-empty search string and every query mode,
  \<open>fetchBooks\<close> issues exactly one GET request. For the mode \<open>authors\<close> its URL is
  \<open>https://openlibrary.org/search/authors.json?q=\<close> followed by the percent-encoding of
  the search string; for the other three modes it is
  \<open>https://openlibrary.org/search.json?\<close>, the mode name, \<open>=\<close>, the percent-encoding,
  \<open>&page=\<close> and the page number in decimal, which is 1 when none is given.
\<close>

theorem fetchBooks_builds_one_url:
  assumes "search \<noteq> []" and "isWellFormed search"
  shows "\<exists>enc. encodeURIComponent search = Inr enc \<and>
     fst (fetchBooks http queryType search page_arg) =
       [if queryType = QAuthors
        then lit ''https://openlibrary.org/search/authors.json?q='' @ enc
        else lit ''https://openlibrary.org/search.json?'' @ queryType_string queryType
             @ lit ''='' @ enc @ lit ''&page=''
             @ numberToString (case page_arg of None \<Rightarrow> NonNegative 1 | Some p \<Rightarrow> p)]"
proof -
  from encode_wellformed [OF assms(2)] obtain enc where enc: "encodeURIComponent search = Inr enc"
    by blast
  from fetchBooks_requests [OF assms(1) fetchBooks_url_wellformed [OF enc] refl] enc
  show ?thesis by blast
qed

lemma numberToString_1: "numberToString (NonNegative 1) = lit ''1''"
  by (simp add: lit_def)

lemma hobbit_encoded: "encodeURIComponent (lit ''the hobbit'') = Inr (lit ''the%20hobbit'')"
  by code_simp

text \<open>The search for "the hobbit" by title, without a page and with page 2.\<close>

theorem fetchBooks_builds_one_url_witness:
  "lit ''the hobbit'' \<noteq> [] \<and> isWellFormed (lit ''the hobbit'')
   \<and> fst (fetchBooks offline QTitle (lit ''the hobbit'') None) =
       [lit ''https://openlibrary.org/search.json?title=the%20hobbit&page=1'']
   \<and> fst (fetchBooks offline QTitle (lit ''the hobbit'') (Some (NonNegative 2))) =
       [lit ''https://openlibrary.org/search.json?title=the%20hobbit&page=2'']
   \<and> fst (fetchBooks offline QAuthors (lit ''the hobbit'') None) =
       [lit ''https://openlibrary.org/search/authors.json?q=the%20hobbit'']"
proof -
  have ne: "lit ''the hobbit'' \<noteq> []" by (simp add: lit_def)
  have wf: "isWellFormed (lit ''the hobbit'')" by code_simp
  note T = fetchBooks_builds_one_url [OF ne wf]
  from T [of offline QTitle None] hobbit_encoded
  have w1: "fst (fetchBooks offline QTitle (lit ''the hobbit'') None) =
       [lit ''https://openlibrary.org/search.json?title=the%20hobbit&page=1'']"
    by (simp add: lit_def)
  from T [of offline QTitle "Some (NonNegative 2)"] hobbit_encoded
  have w2: "fst (fetchBooks offline QTitle (lit ''the hobbit'') (Some (NonNegative 2))) =
       [lit ''https://openlibrary.org/search.json?title=the%20hobbit&page=2'']"
    by (simp add: lit_def)
  from T [of offline QAuthors None] hobbit_encoded
  have w3: "fst (fetchBooks offline QAuthors (lit ''the hobbit'') None) =
       [lit ''https://openlibrary.org/search/authors.json?q=the%20hobbit'']"
    by (simp add: lit_def)
  from ne wf w1 w2 w3 show ?thesis by blast
qed

text \<open>
  Claim C1 for every non-empty search string fails on a string that holds an unpaired
  surrogate: \<open>encodeURIComponent\<close> throws URIError, so no URL is built and no request is
  issued.
\<close>

theorem fetchBooks_unpaired_surrogate:
  "[0xD800] \<noteq> ([] :: js_string) \<and> fetchBooks offline QTitle [0xD800] None = ([], Inl URIError)"
  by (simp add: fetchBooks_def fetchBooks_url_def uriUnescaped_def lit_def isLeadSurrogate_def)

text \<open>
  Claim C2. For every query mode, \<open>fetchBooks\<close> on the empty search string returns the
  empty array and issues no request; the search view also disables its query then.
\<close>

theorem fetchBooks_empty_search:
  "fetchBooks http queryType [] page_arg = ([], Inr (JArr []))
   \<and> DataFetching_queryFn http queryType [] = ([], Inr (JArr []))
   \<and> DataFetching_enabled [] = False"
  by (simp add: fetchBooks_def DataFetching_queryFn_def DataFetching_enabled_def)

subsection \<open>The value returned\<close>

lemma fetchBooks_return_non_nullish:
  assumes "nullish body = False"
  shows "fetchBooks_return body =
     Inr (if nullish (lookup_prop body (lit ''docs'')) = False then lookup_prop body (lit ''docs'')
          else if nullish (lookup_prop body (lit ''entries'')) = False
               then lookup_prop body (lit ''entries'')
               else JArr [])"
  using assms by (simp add: fetchBooks_return_def get_prop_def)

lemma fetchBooks_result:
  assumes "fst (fetchBooks http queryType search page_arg) = [url]" and "http url = Inr body"
  shows "snd (fetchBooks http queryType search page_arg) = fetchBooks_return body"
  using assms by (auto simp: fetchBooks_def Let_def split: if_splits sum.splits)

text \<open>
  Claim C9, for a response body that is neither \<open>null\<close> nor \<open>undefined\<close>, and with
  "present" read as \<open>??\<close> reads it. When the request is answered with such a body,
  \<open>fetchBooks\<close> is fulfilled with the body's \<open>docs\<close> property when that is neither \<open>null\<close>
  nor \<open>undefined\<close>, otherwise with its \<open>entries\<close> property when that is neither \<open>null\<close> nor
  \<open>undefined\<close>, otherwise with the empty array. The value is never \<open>null\<close> or \<open>undefined\<close>.
  It is the \<open>docs\<close> array when \<open>docs\<close> is an array, the \<open>entries\<close> array when \<open>docs\<close> is
  missing and \<open>entries\<close> is an array, and the empty array when both are missing.
\<close>

theorem fetchBooks_returns_docs_or_entries:
  assumes "fst (fetchBooks http queryType search page_arg) = [url]"
    and "http url = Inr body"
    and "nullish body = False"
  shows "\<exists>v. snd (fetchBooks http queryType search page_arg) = Inr v
     \<and> v = (if nullish (lookup_prop body (lit ''docs'')) = False
            then lookup_prop body (lit ''docs'')
            else if nullish (lookup_prop body (lit ''entries'')) = False
                 then lookup_prop body (lit ''entries'')
                 else JArr [])
     \<and> nullish v = False
     \<and> (isArray (lookup_prop body (lit ''docs'')) \<longrightarrow> v = lookup_prop body (lit ''docs''))
     \<and> (nullish (lookup_prop body (lit ''docs''))
          \<and> isArray (lookup_prop body (lit ''entries'')) \<longrightarrow>
            v = lookup_prop body (lit ''entries''))
     \<and> (nullish (lookup_prop body (lit ''docs''))
          \<and> nullish (lookup_prop body (lit ''entries'')) \<longrightarrow> v = JArr [])"
proof -
  let ?v = "if nullish (lookup_prop body (lit ''docs'')) = False
            then lookup_prop body (lit ''docs'')
            else if nullish (lookup_prop body (lit ''entries'')) = False
                 then lookup_prop body (lit ''entries'')
                 else JArr []"
  have r: "snd (fetchBooks http queryType search page_arg) = Inr ?v"
    using fetchBooks_result [OF assms(1,2)] fetchBooks_return_non_nullish [OF assms(3)] by simp
  have n: "nullish ?v = False" by simp
  have a: "isArray (lookup_prop body (lit ''docs'')) \<longrightarrow> ?v = lookup_prop body (lit ''docs'')"
    by (cases "lookup_prop body (lit ''docs'')") simp_all
  have b: "nullish (lookup_prop body (lit ''docs''))
          \<and> isArray (lookup_prop body (lit ''entries'')) \<longrightarrow>
            ?v = lookup_prop body (lit ''entries'')"
    by (cases "lookup_prop body (lit ''entries'')") simp_all
  have c: "nullish (lookup_prop body (lit ''docs''))
          \<and> nullish (lookup_prop body (lit ''entries'')) \<longrightarrow> ?v = JArr []"
    by simp
  from r n a b c show ?thesis by blast
qed

lemma hobbit_url:
  "fst (fetchBooks http QTitle (lit ''hobbit'') None) =
     [lit ''https://openlibrary.org/search.json?title=hobbit&page=1'']"
proof -
  have e: "encodeURIComponent (lit ''hobbit'') = Inr (lit ''hobbit'')" by code_simp
  have ne: "lit ''hobbit'' \<noteq> []" by (simp add: lit_def)
  have u: "fetchBooks_url QTitle (lit ''hobbit'') (NonNegative 1) =
      Inr (lit ''https://openlibrary.org/search.json?title=hobbit&page=1'')"
    using fetchBooks_url_wellformed [OF e, where queryType = QTitle and page = "NonNegative 1"]
    by (simp add: numberToString_1 lit_def)
  from fetchBooks_requests [OF ne u, where page_arg = None and http = http]
  show ?thesis by simp
qed

text \<open>
  Three answers to the search for "hobbit": a body with \<open>docs\<close>, a body whose \<open>docs\<close> is
  \<open>null\<close> and that has \<open>entries\<close>, and the empty object.
\<close>

theorem fetchBooks_returns_docs_or_entries_witness:
  "fst (fetchBooks (answering docs_body) QTitle (lit ''hobbit'') None) =
     [lit ''https://openlibrary.org/search.json?title=hobbit&page=1'']
   \<and> answering docs_body (lit ''https://openlibrary.org/search.json?title=hobbit&page=1'') = Inr docs_body
   \<and> nullish docs_body = False
   \<and> snd (fetchBooks (answering docs_body) QTitle (lit ''hobbit'') None) =
       Inr (JArr [JObj [(lit ''key'', JStr (lit ''/works/OL27482W''))]])
   \<and> snd (fetchBooks (answering entries_body) QTitle (lit ''hobbit'') None) = Inr (JArr [])
   \<and> snd (fetchBooks (answering (JObj [])) QTitle (lit ''hobbit'') None) = Inr (JArr [])"
proof -
  let ?url = "lit ''https://openlibrary.org/search.json?title=hobbit&page=1''"
  have n1: "nullish docs_body = False" and n2: "nullish entries_body = False"
    and n3: "nullish (JObj []) = False"
    by (simp_all add: docs_body_def entries_body_def)
  have a: "\<And>b :: js_value. answering b ?url = Inr b" by (simp add: answering_def)
  have l1: "lookup_prop docs_body (lit ''docs'') = JArr [JObj [(lit ''key'', JStr (lit ''/works/OL27482W''))]]"
    by (simp add: docs_body_def lit_def)
  have l2: "lookup_prop entries_body (lit ''docs'') = JNull"
    "lookup_prop entries_body (lit ''entries'') = JArr []"
    by (simp_all add: entries_body_def lit_def)
  have l3: "lookup_prop (JObj []) (lit ''docs'') = JUndefined"
    "lookup_prop (JObj []) (lit ''entries'') = JUndefined"
    by simp_all
  from fetchBooks_returns_docs_or_entries
         [OF hobbit_url [of "answering docs_body"] a [of docs_body] n1] l1
  have w1: "snd (fetchBooks (answering docs_body) QTitle (lit ''hobbit'') None) =
       Inr (JArr [JObj [(lit ''key'', JStr (lit ''/works/OL27482W''))]])"
    by simp
  from fetchBooks_returns_docs_or_entries
         [OF hobbit_url [of "answering entries_body"] a [of entries_body] n2] l2
  have w2: "snd (fetchBooks (answering entries_body) QTitle (lit ''hobbit'') None) = Inr (JArr [])"
    by simp
  from fetchBooks_returns_docs_or_entries
         [OF hobbit_url [of "answering (JObj [])"] a [of "JObj []"] n3] l3
  have w3: "snd (fetchBooks (answering (JObj [])) QTitle (lit ''hobbit'') None) = Inr (JArr [])"
    by simp
  from hobbit_url [of "answering docs_body"] a [of docs_body] n1 w1 w2 w3 show ?thesis by blast
qed

text \<open>
  Claim C9 for every response shape fails: a body whose \<open>docs\<close> is the number 5 makes
  \<open>fetchBooks\<close> return 5, which is no list; a body that is an array makes it return the
  built-in method \<open>Array.prototype.entries\<close>; and the body \<open>null\<close> makes it throw a
  TypeError.
\<close>

theorem fetchBooks_returns_non_list:
  "snd (fetchBooks (answering (JObj [(lit ''docs'', JNum 5)])) QTitle (lit ''hobbit'') None)
     = Inr (JNum 5)
   \<and> isArray (JNum 5) = False
   \<and> snd (fetchBooks (answering (JArr [])) QTitle (lit ''hobbit'') None)
     = Inr (JBuiltin ''Array.prototype.entries'')
   \<and> snd (fetchBooks (answering JNull) QTitle (lit ''hobbit'') None) = Inl TypeError"
proof -
  let ?url = "lit ''https://openlibrary.org/search.json?title=hobbit&page=1''"
  have a: "\<And>b :: js_value. answering b ?url = Inr b" by (simp add: answering_def)
  have "fetchBooks_return (JObj [(lit ''docs'', JNum 5)]) = Inr (JNum 5)"
    by (simp add: fetchBooks_return_def get_prop_def)
  moreover have "fetchBooks_return (JArr []) = Inr (JBuiltin ''Array.prototype.entries'')"
    by (simp add: fetchBooks_return_def get_prop_def lit_def)
  moreover have "fetchBooks_return JNull = Inl TypeError"
    by (simp add: fetchBooks_return_def get_prop_def)
  ultimately show ?thesis
    using fetchBooks_result [OF hobbit_url [of "answering (JObj [(lit ''docs'', JNum 5)])"] a]
      fetchBooks_result [OF hobbit_url [of "answering (JArr [])"] a]
      fetchBooks_result [OF hobbit_url [of "answering JNull"] a]
    by simp
qed

section \<open>The cards\<close>

subsection \<open>Splitting the key\<close>

lemma js_split_nonempty: "js_split sep cs \<noteq> []"
  by (induction cs) (auto split: list.splits)

lemma js_split_no_sep: "sep \<notin> set cs \<Longrightarrow> js_split sep cs = [cs]"
  by (induction cs) auto

lemma js_split_append: "js_split sep (xs @ sep # ys) = js_split sep xs @ js_split sep ys"
proof (induction xs)
  case Nil
  show ?case by simp
next
  case (Cons c xs)
  obtain s ss where "js_split sep xs = s # ss"
    using js_split_nonempty [of sep xs] by (cases "js_split sep xs") auto
  with Cons show ?case by simp
qed

lemma join_js_split: "join [sep] (js_split sep cs) = cs"
proof (induction cs)
  case Nil
  show ?case by simp
next
  case (Cons c cs)
  obtain s ss where sp: "js_split sep cs = s # ss"
    using js_split_nonempty [of sep cs] by (cases "js_split sep cs") auto
  with Cons show ?case by (cases ss) auto
qed

lemma js_split_segments: "s \<in> set (js_split sep cs) \<Longrightarrow> sep \<notin> set s"
proof (induction cs arbitrary: s)
  case Nil
  then show ?case by simp
next
  case (Cons c cs)
  obtain t ts where sp: "js_split sep cs = t # ts"
    using js_split_nonempty [of sep cs] by (cases "js_split sep cs") auto
  with Cons show ?case by (auto split: if_splits)
qed

lemma last_js_split: "last (js_split sep cs) = rev (takeWhile (\<lambda>c. c \<noteq> sep) (rev cs))"
proof (cases "sep \<in> set cs")
  case True
  then obtain xs ys where cs: "cs = xs @ sep # ys" and ys: "sep \<notin> set ys"
    by (auto dest: split_list_last)
  from ys have "takeWhile (\<lambda>c. c \<noteq> sep) (rev ys @ sep # rev xs) = rev ys"
    by (subst takeWhile_append2) auto
  with cs ys show ?thesis
    by (simp add: js_split_append js_split_no_sep)
next
  case False
  then have tw: "takeWhile (\<lambda>c. c \<noteq> sep) (rev cs) = rev cs"
    by (auto simp: takeWhile_eq_all_conv)
  from False show ?thesis by (simp add: js_split_no_sep tw)
qed

lemma last_segment_suffix:
  "\<exists>pre. cs = pre @ rev (takeWhile (\<lambda>c. c \<noteq> sep) (rev cs)) \<and> (pre = [] \<or> last pre = sep)"
proof (cases "sep \<in> set cs")
  case True
  then obtain xs ys where cs: "cs = xs @ sep # ys" and ys: "sep \<notin> set ys"
    by (auto dest: split_list_last)
  from ys have "takeWhile (\<lambda>c. c \<noteq> sep) (rev ys @ sep # rev xs) = rev ys"
    by (subst takeWhile_append2) auto
  with cs have "cs = (xs @ [sep]) @ rev (takeWhile (\<lambda>c. c \<noteq> sep) (rev cs))" by simp
  moreover have "last (xs @ [sep]) = sep" by simp
  ultimately show ?thesis by blast
next
  case False
  then have tw: "takeWhile (\<lambda>c. c \<noteq> sep) (rev cs) = rev cs"
    by (auto simp: takeWhile_eq_all_conv)
  show ?thesis by (simp add: tw)
qed

text \<open>
  Claim C10. The link of a card is \<open>/book/\<close> followed by the last segment of the book's
  key when the key is split at \<open>/\<close> (code unit 0x2F): the part of the key after its last
  \<open>/\<close>. When the key holds no \<open>/\<close> the segment is the whole key, and when the key ends in
  \<open>/\<close> the segment is the empty string.
\<close>

theorem BookCard_link_target:
  "\<exists>seg. BookCard_workId book = Some seg
     \<and> card_href (BookCard book) = lit ''/book/'' @ seg
     \<and> seg = last (js_split 0x2F (Book.key book))
     \<and> 0x2F \<notin> set seg
     \<and> (\<exists>pre. Book.key book = pre @ seg \<and> (pre = [] \<or> last pre = 0x2F))
     \<and> (0x2F \<notin> set (Book.key book) \<longrightarrow> seg = Book.key book)
     \<and> (\<forall>k. Book.key book = k @ [0x2F] \<longrightarrow> seg = [])"
proof -
  let ?key = "Book.key book"
  let ?seg = "last (js_split 0x2F ?key)"
  have w: "BookCard_workId book = Some ?seg"
    by (simp add: BookCard_workId_def js_pop_def js_split_nonempty)
  then have h: "card_href (BookCard book) = lit ''/book/'' @ ?seg"
    by (simp add: BookCard_def template_string_def)
  have n: "0x2F \<notin> set ?seg"
    by (rule js_split_segments [of _ _ ?key]) (simp add: js_split_nonempty)
  have p: "\<exists>pre. ?key = pre @ ?seg \<and> (pre = [] \<or> last pre = 0x2F)"
    unfolding last_js_split by (rule last_segment_suffix)
  have a: "0x2F \<notin> set ?key \<longrightarrow> ?seg = ?key"
    by (simp add: js_split_no_sep)
  have e: "\<forall>k. ?key = k @ [0x2F] \<longrightarrow> ?seg = []"
    by (simp add: last_js_split)
  from w h n p a e show ?thesis by blast
qed

text \<open>
  The keys \<open>/works/OL27482W\<close>, \<open>OL27482W\<close> (no separator) and \<open>/works/\<close> (ending in the
  separator).
\<close>

theorem BookCard_link_target_witness:
  "card_href (BookCard example_book) = lit ''/book/OL27482W''
   \<and> 0x2F \<notin> set (lit ''OL27482W'')
   \<and> card_href (BookCard (example_book\<lparr>Book.key := lit ''OL27482W''\<rparr>)) = lit ''/book/OL27482W''
   \<and> card_href (BookCard (example_book\<lparr>Book.key := lit ''/works/''\<rparr>)) = lit ''/book/''"
proof -
  have t1: "card_href (BookCard example_book) = lit ''/book/OL27482W''"
    by (simp add: BookCard_def BookCard_workId_def js_pop_def template_string_def
        example_book_def lit_def)
  have n: "0x2F \<notin> set (lit ''OL27482W'')" by (simp add: lit_def)
  have k3: "lit ''/works/'' = lit ''/works'' @ [0x2F]" by (simp add: lit_def)
  obtain s2 where
    h2: "card_href (BookCard (example_book\<lparr>Book.key := lit ''OL27482W''\<rparr>)) = lit ''/book/'' @ s2"
    and w2: "0x2F \<notin> set (Book.key (example_book\<lparr>Book.key := lit ''OL27482W''\<rparr>))
             \<longrightarrow> s2 = Book.key (example_book\<lparr>Book.key := lit ''OL27482W''\<rparr>)"
    using BookCard_link_target [of "example_book\<lparr>Book.key := lit ''OL27482W''\<rparr>"] by blast
  from w2 n have "s2 = lit ''OL27482W''" by simp
  with h2 have t2: "card_href (BookCard (example_book\<lparr>Book.key := lit ''OL27482W''\<rparr>))
      = lit ''/book/OL27482W''"
    by (simp add: lit_def)
  obtain s3 where
    h3: "card_href (BookCard (example_book\<lparr>Book.key := lit ''/works/''\<rparr>)) = lit ''/book/'' @ s3"
    and w3: "\<forall>k. Book.key (example_book\<lparr>Book.key := lit ''/works/''\<rparr>) = k @ [0x2F] \<longrightarrow> s3 = []"
    using BookCard_link_target [of "example_book\<lparr>Book.key := lit ''/works/''\<rparr>"] by blast
  from w3 k3 have "s3 = []" by simp
  with h3 have t3: "card_href (BookCard (example_book\<lparr>Book.key := lit ''/works/''\<rparr>)) = lit ''/book/''"
    by simp
  from t1 n t2 t3 show ?thesis by blast
qed

subsection \<open>Cover images\<close>

text \<open>
  Claim C8, for cover identifiers that are safe integers, and with "present" read as the
  truthiness test of the source reads it. On a card, a cover identifier that is present
  and not 0 gives \<open>https://covers.openlibrary.org/b/id/<id>-M.jpg\<close>, with the identifier
  in decimal, and a missing one or 0 gives the placeholder of the card. On the detail
  page, a first cover identifier that is present and not 0 gives
  \<open>https://covers.openlibrary.org/b/id/<id>-L.jpg\<close>, and a missing or empty list of covers
  or a first identifier 0 gives the placeholder of the page.
\<close>

theorem cover_urls:
  "card_img_src (BookCard book) = BookCard_coverUrl book
   \<and> (\<forall>n. cover_i book = Some n \<and> magnitude n \<noteq> 0 \<longrightarrow>
        BookCard_coverUrl book =
          lit ''https://covers.openlibrary.org/b/id/'' @ numberToString n @ lit ''-M.jpg'')
   \<and> (cover_i book = None \<or> (\<exists>n. cover_i book = Some n \<and> magnitude n = 0) \<longrightarrow>
        BookCard_coverUrl book = lit ''https://via.placeholder.com/200x300?text=No+Cover'')
   \<and> (\<forall>c cs. covers details = Some (c # cs) \<and> magnitude c \<noteq> 0 \<longrightarrow>
        BookPage_coverUrl details =
          lit ''https://covers.openlibrary.org/b/id/'' @ numberToString c @ lit ''-L.jpg'')
   \<and> (covers details = None \<or> covers details = Some []
        \<or> (\<exists>c cs. covers details = Some (c # cs) \<and> magnitude c = 0) \<longrightarrow>
        BookPage_coverUrl details = lit ''https://via.placeholder.com/400x600?text=No+Cover'')"
  by (auto simp: BookCard_def BookCard_coverUrl_def BookPage_coverUrl_def number_truthy_def)

text \<open>The example book with and without its cover identifier, on the card and the page.\<close>

theorem cover_urls_witness:
  "cover_i example_book = Some (NonNegative 14627509)
   \<and> magnitude (NonNegative 14627509) = 14627509
   \<and> BookCard_coverUrl example_book = lit ''https://covers.openlibrary.org/b/id/14627509-M.jpg''
   \<and> cover_i (example_book\<lparr>cover_i := None\<rparr>) = None
   \<and> BookCard_coverUrl (example_book\<lparr>cover_i := None\<rparr>) =
       lit ''https://via.placeholder.com/200x300?text=No+Cover''
   \<and> covers example_details = Some [NonNegative 14627509]
   \<and> BookPage_coverUrl example_details = lit ''https://covers.openlibrary.org/b/id/14627509-L.jpg''
   \<and> covers (example_details\<lparr>covers := None\<rparr>) = None
   \<and> BookPage_coverUrl (example_details\<lparr>covers := None\<rparr>) =
       lit ''https://via.placeholder.com/400x600?text=No+Cover''"
proof -
  have c1: "cover_i example_book = Some (NonNegative 14627509)" by (simp add: example_book_def)
  have c2: "cover_i (example_book\<lparr>cover_i := None\<rparr>) = None" by simp
  have c3: "covers example_details = Some [NonNegative 14627509]"
    by (simp add: example_details_def)
  have c4: "covers (example_details\<lparr>covers := None\<rparr>) = None" by simp
  have m: "magnitude (NonNegative 14627509) = 14627509" by simp
  from cover_urls [of example_book example_details] c1 c3 m
  have u: "BookCard_coverUrl example_book = lit ''https://covers.openlibrary.org/b/id/14627509-M.jpg''"
    "BookPage_coverUrl example_details = lit ''https://covers.openlibrary.org/b/id/14627509-L.jpg''"
    by (simp_all add: lit_def)
  from cover_urls [of "example_book\<lparr>cover_i := None\<rparr>" "example_details\<lparr>covers := None\<rparr>"] c2 c4
  have p: "BookCard_coverUrl (example_book\<lparr>cover_i := None\<rparr>) =
       lit ''https://via.placeholder.com/200x300?text=No+Cover''"
    "BookPage_coverUrl (example_details\<lparr>covers := None\<rparr>) =
       lit ''https://via.placeholder.com/400x600?text=No+Cover''"
    by simp_all
  from c1 m c2 c3 c4 u p show ?thesis by blast
qed

text \<open>
  Claim C8 for every book record fails on the cover identifier 0: the identifier is
  present, and the card shows the placeholder, not the URL built from it.
\<close>

theorem cover_identifier_zero:
  "cover_i (example_book\<lparr>cover_i := Some (NonNegative 0)\<rparr>) = Some (NonNegative 0)
   \<and> numberToString (NonNegative 0) = lit ''0''
   \<and> BookCard_coverUrl (example_book\<lparr>cover_i := Some (NonNegative 0)\<rparr>) =
       lit ''https://via.placeholder.com/200x300?text=No+Cover''
   \<and> BookCard_coverUrl (example_book\<lparr>cover_i := Some (NonNegative 0)\<rparr>) \<noteq>
       lit ''https://covers.openlibrary.org/b/id/0-M.jpg''"
  by (simp add: BookCard_coverUrl_def number_truthy_def lit_def)

subsection \<open>The grid\<close>

text \<open>
  Claim C4. For every result list the query delivers, the grid holds at most 15 cards:
  the cards of the first \<open>min 15 (length items)\<close> items, in order.
\<close>

theorem card_grid_at_most_15:
  assumes "data q = Some items"
  shows "length (view_grid (DataFetching q)) \<le> 15
     \<and> view_grid (DataFetching q) =
         map (\<lambda>item. (Book.key item, BookCard item)) (take (min 15 (length items)) items)"
  using assms by (simp add: DataFetching_def slice_def min_def)

text \<open>A result list of sixteen books: the grid shows the first fifteen.\<close>

theorem card_grid_at_most_15_witness:
  "data (loaded sixteen_books) = Some sixteen_books \<and> length sixteen_books = 16
   \<and> length (view_grid (DataFetching (loaded sixteen_books))) = 15
   \<and> map fst (view_grid (DataFetching (loaded sixteen_books))) =
       map (\<lambda>c. lit ''/works/OL'' @ [c] @ lit ''W'') (lit ''ABCDEFGHIJKLMNO'')"
proof -
  have d: "data (loaded sixteen_books) = Some sixteen_books" by (simp add: loaded_def)
  have l: "length sixteen_books = 16" by (simp add: sixteen_books_def lit_def)
  from card_grid_at_most_15 [OF d] l
  have g: "view_grid (DataFetching (loaded sixteen_books)) =
      map (\<lambda>item. (Book.key item, BookCard item)) (take 15 sixteen_books)"
    by simp
  have t: "map Book.key (take 15 sixteen_books) =
      map (\<lambda>c. lit ''/works/OL'' @ [c] @ lit ''W'') (lit ''ABCDEFGHIJKLMNO'')"
    by (simp add: sixteen_books_def lit_def)
  from g l have "length (view_grid (DataFetching (loaded sixteen_books))) = 15" by simp
  moreover from g t have "map fst (view_grid (DataFetching (loaded sixteen_books))) =
       map (\<lambda>c. lit ''/works/OL'' @ [c] @ lit ''W'') (lit ''ABCDEFGHIJKLMNO'')"
    by (simp add: comp_def)
  ultimately show ?thesis using d l by blast
qed

section \<open>The detail page\<close>

subsection \<open>The author requests\<close>

lemma first_rejection_None:
  "first_rejection ps = None \<longleftrightarrow> (\<forall>p \<in> set ps. \<exists>v. snd p = Inr v)"
  by (induction ps rule: first_rejection.induct) (auto split: sum.splits option.splits)

lemma first_rejection_Some:
  "first_rejection ps = Some (t, e) \<Longrightarrow>
     (t, Inl e) \<in> set ps \<and> (\<forall>t' e'. (t', Inl e') \<in> set ps \<longrightarrow> t \<le> t')"
proof (induction ps arbitrary: t e)
  case Nil
  then show ?case by simp
next
  case (Cons p ps)
  obtain t0 r where p: "p = (t0, r)" by (cases p)
  show ?case
  proof (cases r)
    case (Inr v)
    with Cons p show ?thesis by auto
  next
    case (Inl e0)
    show ?thesis
    proof (cases "first_rejection ps")
      case None
      then have "\<forall>q \<in> set ps. \<exists>v. snd q = Inr v" by (simp add: first_rejection_None)
      then have "\<forall>t' e'. (t', Inl e') \<notin> set ps" by force
      with Cons.prems p Inl None show ?thesis by auto
    next
      case (Some te)
      obtain t1 e1 where te: "te = (t1, e1)" by (cases te)
      from Cons.IH [of t1 e1] Some te
      have ih: "(t1, Inl e1) \<in> set ps \<and> (\<forall>t' e'. (t', Inl e') \<in> set ps \<longrightarrow> t1 \<le> t')"
        by simp
      show ?thesis
      proof (cases "t0 \<le> t1")
        case True
        with Cons.prems p Inl Some te have "t = t0" "e = e0" by simp_all
        with ih True Inl p show ?thesis by fastforce
      next
        case False
        with Cons.prems p Inl Some te have "t = t1" "e = e1" by simp_all
        with ih False Inl p show ?thesis by fastforce
      qed
    qed
  qed
qed

lemma collect_fulfilled: "collect (map Inr vs) = Inr vs"
  by (induction vs) simp_all

lemma collect_Inr: "collect rs = Inr vs \<Longrightarrow> rs = map Inr vs"
  by (induction rs arbitrary: vs) (auto split: sum.splits)

lemma collect_all_values:
  "\<forall>r \<in> set rs. \<exists>v. r = Inr v \<Longrightarrow> \<exists>vs. collect rs = Inr vs"
  by (induction rs) (auto split: sum.splits)

lemma fold_max_ge_start: "now \<le> fold max ts (now :: nat)"
  by (induction ts arbitrary: now) (auto intro: order_trans [OF max.cobounded2])

lemma fold_max_ge_each: "t \<in> set ts \<Longrightarrow> t \<le> fold max ts (now :: nat)"
proof (induction ts arbitrary: now)
  case Nil
  then show ?case by simp
next
  case (Cons a ts)
  show ?case
  proof (cases "t = a")
    case True
    have "a \<le> max a now" by simp
    also have "\<dots> \<le> fold max ts (max a now)" by (rule fold_max_ge_start)
    finally show ?thesis using True by simp
  next
    case False
    with Cons show ?thesis by simp
  qed
qed

lemma fold_max_is_one: "fold max ts (now :: nat) = now \<or> fold max ts now \<in> set ts"
proof (induction ts arbitrary: now)
  case Nil
  show ?case by simp
next
  case (Cons a ts)
  from Cons [of "max a now"] show ?case by (auto simp: max_def split: if_splits)
qed

text \<open>
  Claim C5, with the time at which the query settles as \<open>Promise.all\<close> gives it. For a
  book with N author references, the author query issues exactly N requests, one per
  reference and in their order, each to \<open>https://openlibrary.org\<close>, the reference's key
  and \<open>.json\<close>, and all of them at the time the query function runs, none waiting for
  another. When every request succeeds, the query is fulfilled with the N responses in
  order, at the time the last of them arrives, that is once all N are complete.
  When a request fails, the query is rejected with the error of the failure that arrives
  first, at the time it arrives, and no list of authors is produced.
\<close>

theorem author_fan_out:
  assumes "authors book = Some refs"
  shows "fst (authors_queryFn http latency now (Some book)) =
       map (\<lambda>r. (lit ''https://openlibrary.org'' @ key_ref.key (author r) @ lit ''.json'', now))
         refs
     \<and> length (fst (authors_queryFn http latency now (Some book))) = length refs
     \<and> ((\<forall>r \<in> set refs. \<exists>a. http (author_url r) = Inr a) \<longrightarrow>
          (\<exists>t as. snd (authors_queryFn http latency now (Some book)) = (t, Inr as)
             \<and> map Inr as = map (\<lambda>r. http (author_url r)) refs
             \<and> now \<le> t
             \<and> (\<forall>r \<in> set refs. now + latency (author_url r) \<le> t)
             \<and> (t = now \<or> (\<exists>r \<in> set refs. t = now + latency (author_url r)))))
     \<and> ((\<exists>r \<in> set refs. \<exists>e. http (author_url r) = Inl e) \<longrightarrow>
          (\<exists>t e. snd (authors_queryFn http latency now (Some book)) = (t, Inl e)
             \<and> (\<exists>r \<in> set refs. http (author_url r) = Inl e
                   \<and> t = now + latency (author_url r))
             \<and> (\<forall>r \<in> set refs. \<forall>e'. http (author_url r) = Inl e' \<longrightarrow>
                   t \<le> now + latency (author_url r))))"
proof -
  let ?p = "\<lambda>r. (now + latency (author_url r), http (author_url r))"
  let ?ps = "map ?p refs"
  let ?q = "authors_queryFn http latency now (Some book)"
  have q: "?q = (map (\<lambda>r. (author_url r, now)) refs, Promise_all now ?ps)"
    using assms by (simp add: authors_queryFn_def book_authors_def axios_get_def)
  have u: "fst ?q =
      map (\<lambda>r. (lit ''https://openlibrary.org'' @ key_ref.key (author r) @ lit ''.json'', now))
        refs"
    by (simp add: q author_url_def)
  have l: "length (fst ?q) = length refs" by (simp add: q)
  have s: "(\<forall>r \<in> set refs. \<exists>a. http (author_url r) = Inr a) \<longrightarrow>
          (\<exists>t as. snd ?q = (t, Inr as)
             \<and> map Inr as = map (\<lambda>r. http (author_url r)) refs
             \<and> now \<le> t
             \<and> (\<forall>r \<in> set refs. now + latency (author_url r) \<le> t)
             \<and> (t = now \<or> (\<exists>r \<in> set refs. t = now + latency (author_url r))))"
  proof
    assume ok: "\<forall>r \<in> set refs. \<exists>a. http (author_url r) = Inr a"
    let ?t = "fold max (map fst ?ps) now"
    from ok have none: "first_rejection ?ps = None"
      by (simp add: first_rejection_None)
    from ok have "\<forall>x \<in> set (map snd ?ps). \<exists>v. x = Inr v" by (simp add: comp_def)
    from collect_all_values [OF this] obtain as where as: "collect (map snd ?ps) = Inr as"
      by blast
    from collect_Inr [OF as] have m: "map Inr as = map (\<lambda>r. http (author_url r)) refs"
      by (simp add: comp_def)
    from none as have r: "snd ?q = (?t, Inr as)" by (simp add: q Promise_all_def)
    have b0: "now \<le> ?t" by (rule fold_max_ge_start)
    have b1: "\<forall>r \<in> set refs. now + latency (author_url r) \<le> ?t"
    proof
      fix r assume "r \<in> set refs"
      then have "now + latency (author_url r) \<in> set (map fst ?ps)" by force
      then show "now + latency (author_url r) \<le> ?t" by (rule fold_max_ge_each)
    qed
    have b2: "?t = now \<or> (\<exists>r \<in> set refs. ?t = now + latency (author_url r))"
      using fold_max_is_one [of "map fst ?ps" now] by force
    from r m b0 b1 b2 show "\<exists>t as. snd ?q = (t, Inr as)
             \<and> map Inr as = map (\<lambda>r. http (author_url r)) refs
             \<and> now \<le> t
             \<and> (\<forall>r \<in> set refs. now + latency (author_url r) \<le> t)
             \<and> (t = now \<or> (\<exists>r \<in> set refs. t = now + latency (author_url r)))"
      by blast
  qed
  have f: "(\<exists>r \<in> set refs. \<exists>e. http (author_url r) = Inl e) \<longrightarrow>
          (\<exists>t e. snd ?q = (t, Inl e)
             \<and> (\<exists>r \<in> set refs. http (author_url r) = Inl e
                   \<and> t = now + latency (author_url r))
             \<and> (\<forall>r \<in> set refs. \<forall>e'. http (author_url r) = Inl e' \<longrightarrow>
                   t \<le> now + latency (author_url r)))"
  proof
    assume "\<exists>r \<in> set refs. \<exists>e. http (author_url r) = Inl e"
    then obtain r0 e0 where r0: "r0 \<in> set refs" and e0: "http (author_url r0) = Inl e0"
      by blast
    have "first_rejection ?ps \<noteq> None"
    proof
      assume "first_rejection ?ps = None"
      then have "\<forall>p \<in> set ?ps. \<exists>v. snd p = Inr v" by (simp only: first_rejection_None)
      with r0 have "\<exists>v. snd (?p r0) = Inr v" by simp
      with e0 show False by simp
    qed
    then obtain t e where te: "first_rejection ?ps = Some (t, e)" by auto
    from first_rejection_Some [OF te]
    have mem: "(t, Inl e) \<in> set ?ps"
      and least: "\<forall>t' e'. (t', Inl e') \<in> set ?ps \<longrightarrow> t \<le> t'"
      by blast+
    from mem obtain r where r: "r \<in> set refs" and tr: "t = now + latency (author_url r)"
      and er: "http (author_url r) = Inl e"
      by auto
    have min: "\<forall>r \<in> set refs. \<forall>e'. http (author_url r) = Inl e' \<longrightarrow>
        t \<le> now + latency (author_url r)"
    proof (intro ballI allI impI)
      fix r' e' assume "r' \<in> set refs" and "http (author_url r') = Inl e'"
      then have "(now + latency (author_url r'), Inl e') \<in> set ?ps" by force
      with least show "t \<le> now + latency (author_url r')" by blast
    qed
    from te have "snd ?q = (t, Inl e)" by (simp add: q Promise_all_def)
    with r tr er min show "\<exists>t e. snd ?q = (t, Inl e)
             \<and> (\<exists>r \<in> set refs. http (author_url r) = Inl e
                   \<and> t = now + latency (author_url r))
             \<and> (\<forall>r \<in> set refs. \<forall>e'. http (author_url r) = Inl e' \<longrightarrow>
                   t \<le> now + latency (author_url r))"
      by blast
  qed
  from u l s f show ?thesis by blast
qed

text \<open>
  The example book has two author references: two requests at time 0. When both are
  answered, after 1 and 5 steps, the query is fulfilled at time 5; when the second is
  rejected after 1 step, the query is rejected at time 1.
\<close>

theorem author_fan_out_witness:
  "authors example_details =
      Some [\<lparr>author = \<lparr>key_ref.key = lit ''/authors/OL26320A''\<rparr>\<rparr>,
            \<lparr>author = \<lparr>key_ref.key = lit ''/authors/OL2623360A''\<rparr>\<rparr>]
   \<and> fst (authors_queryFn (answering example_author)
            (quick_on (lit ''https://openlibrary.org/authors/OL26320A.json'')) 0
            (Some example_details)) =
       [(lit ''https://openlibrary.org/authors/OL26320A.json'', 0),
        (lit ''https://openlibrary.org/authors/OL2623360A.json'', 0)]
   \<and> snd (authors_queryFn (answering example_author)
            (quick_on (lit ''https://openlibrary.org/authors/OL26320A.json'')) 0
            (Some example_details)) =
       (5, Inr [example_author, example_author])
   \<and> failing_on (lit ''https://openlibrary.org/authors/OL2623360A.json'') example_author
        (lit ''https://openlibrary.org/authors/OL2623360A.json'') =
       Inl (AxiosError (lit ''Request failed with status code 404''))
   \<and> snd (authors_queryFn
            (failing_on (lit ''https://openlibrary.org/authors/OL2623360A.json'') example_author)
            (quick_on (lit ''https://openlibrary.org/authors/OL2623360A.json'')) 0
            (Some example_details)) =
       (1, Inl (AxiosError (lit ''Request failed with status code 404'')))"
proof -
  let ?r1 = "\<lparr>author = \<lparr>key_ref.key = lit ''/authors/OL26320A''\<rparr>\<rparr>"
  let ?r2 = "\<lparr>author = \<lparr>key_ref.key = lit ''/authors/OL2623360A''\<rparr>\<rparr>"
  let ?u1 = "lit ''https://openlibrary.org/authors/OL26320A.json''"
  let ?u2 = "lit ''https://openlibrary.org/authors/OL2623360A.json''"
  let ?ok = "answering example_author :: Author http"
  let ?bad = "failing_on ?u2 example_author :: Author http"
  let ?err = "AxiosError (lit ''Request failed with status code 404'')"
  have a: "authors example_details = Some [?r1, ?r2]" by (simp add: example_details_def)
  have u1: "author_url ?r1 = ?u1" and u2: "author_url ?r2 = ?u2"
    by (simp_all add: author_url_def lit_def)
  have ne: "?u1 \<noteq> ?u2" by (simp add: lit_def)
  have l1: "quick_on ?u1 ?u1 = 1" "quick_on ?u1 ?u2 = 5" "quick_on ?u2 ?u1 = 5" "quick_on ?u2 ?u2 = 1"
    using ne by (simp_all add: quick_on_def)
  have b1: "?bad ?u1 = Inr example_author" and b2: "?bad ?u2 = Inl ?err"
    using ne by (simp_all add: failing_on_def)
  note ok = author_fan_out [OF a, of ?ok "quick_on ?u1" 0]
  note bad = author_fan_out [OF a, of ?bad "quick_on ?u2" 0]
  from ok have f1: "fst (authors_queryFn ?ok (quick_on ?u1) 0 (Some example_details)) =
      [(?u1, 0), (?u2, 0)]"
    by (simp add: lit_def)
  have "\<forall>r \<in> set [?r1, ?r2]. \<exists>a. ?ok (author_url r) = Inr a" by (simp add: answering_def)
  with ok obtain t as where
    s: "snd (authors_queryFn ?ok (quick_on ?u1) 0 (Some example_details)) = (t, Inr as)"
    and m: "map Inr as = map (\<lambda>r. ?ok (author_url r)) [?r1, ?r2]"
    and lo: "\<forall>r \<in> set [?r1, ?r2]. 0 + quick_on ?u1 (author_url r) \<le> t"
    and hi: "t = 0 \<or> (\<exists>r \<in> set [?r1, ?r2]. t = 0 + quick_on ?u1 (author_url r))"
    by blast
  from lo hi have "t = 5" by (auto simp: u1 u2 l1)
  moreover from m have "as = [example_author, example_author]"
    by (auto simp: answering_def map_eq_Cons_conv)
  ultimately have s1: "snd (authors_queryFn ?ok (quick_on ?u1) 0 (Some example_details)) =
      (5, Inr [example_author, example_author])"
    using s by simp
  have "\<exists>r \<in> set [?r1, ?r2]. \<exists>e. ?bad (author_url r) = Inl e" by (simp add: u2 b2)
  with bad obtain t' e where
    s': "snd (authors_queryFn ?bad (quick_on ?u2) 0 (Some example_details)) = (t', Inl e)"
    and w: "\<exists>r \<in> set [?r1, ?r2]. ?bad (author_url r) = Inl e
              \<and> t' = 0 + quick_on ?u2 (author_url r)"
    by blast
  from w have "t' = 1 \<and> e = ?err" by (auto simp: u1 u2 b1 b2 l1)
  with s' have s2: "snd (authors_queryFn ?bad (quick_on ?u2) 0 (Some example_details)) =
      (1, Inl ?err)"
    by simp
  from a f1 s1 b2 s2 show ?thesis by blast
qed

text \<open>
  Claim C5 for the suspension until all N lookups complete fails when a lookup fails:
  with the first lookup rejected at time 1 and the second answered at time 5, the query is
  rejected at time 1, four steps before the second lookup completes.
\<close>

theorem author_fan_out_first_failure:
  "snd (authors_queryFn
          (failing_on (lit ''https://openlibrary.org/authors/OL26320A.json'') example_author)
          (quick_on (lit ''https://openlibrary.org/authors/OL26320A.json'')) 0
          (Some example_details)) =
     (1, Inl (AxiosError (lit ''Request failed with status code 404'')))
   \<and> axios_get
        (failing_on (lit ''https://openlibrary.org/authors/OL26320A.json'') example_author)
        (quick_on (lit ''https://openlibrary.org/authors/OL26320A.json'')) 0
        (lit ''https://openlibrary.org/authors/OL2623360A.json'') =
     (5, Inr example_author)
   \<and> (1 :: nat) < 5"
  by (simp add: authors_queryFn_def book_authors_def example_details_def author_url_def
      axios_get_def Promise_all_def failing_on_def quick_on_def lit_def)

text \<open>
  Claim C6. While the book has not resolved, the author query is disabled and its
  function issues no request. When the resolved book has no author references (the field
  is missing) the query is disabled as well, and its function issues no request and
  returns the empty list at once; with an empty list of references it issues no request
  and returns the empty list at once.
\<close>

theorem no_author_lookups_without_references:
  "authors_enabled None = False
   \<and> authors_queryFn http latency now None = ([], (now, Inr []))
   \<and> (authors book = None \<longrightarrow>
        authors_enabled (Some book) = False
        \<and> authors_queryFn http latency now (Some book) = ([], (now, Inr [])))
   \<and> (authors book = Some [] \<longrightarrow>
        authors_queryFn http latency now (Some book) = ([], (now, Inr [])))"
  by (simp add: authors_enabled_def authors_queryFn_def book_authors_def Promise_all_def)

text \<open>The example book without the field, and with an empty list of references.\<close>

theorem no_author_lookups_without_references_witness:
  "authors (example_details\<lparr>authors := None\<rparr>) = None
   \<and> authors_enabled (Some (example_details\<lparr>authors := None\<rparr>)) = False
   \<and> authors_queryFn (answering example_author) (quick_on []) 0
        (Some (example_details\<lparr>authors := None\<rparr>))
       = ([], (0, Inr []))
   \<and> authors (example_details\<lparr>authors := Some []\<rparr>) = Some []
   \<and> authors_queryFn (answering example_author) (quick_on []) 0
        (Some (example_details\<lparr>authors := Some []\<rparr>))
       = ([], (0, Inr []))
   \<and> authors_queryFn (answering example_author) (quick_on []) 0 None = ([], (0, Inr []))"
  using no_author_lookups_without_references
          [of "answering example_author" "quick_on []" 0 "example_details\<lparr>authors := None\<rparr>"]
        no_author_lookups_without_references
          [of "answering example_author" "quick_on []" 0 "example_details\<lparr>authors := Some []\<rparr>"]
  by simp

subsection \<open>Description and biographies\<close>

lemma string_or_value_truthy: "truthy v \<Longrightarrow> \<exists>t. string_or_value v fallback = Inr t"
  by (cases v) (simp_all add: string_or_value_def get_prop_def)

lemma description_section_total: "\<exists>r. description_section d = Inr r"
proof (cases "truthy d")
  case True
  from string_or_value_truthy [OF True] obtain t
    where "string_or_value d (lit ''No description available'') = Inr t" by blast
  with True show ?thesis by (simp add: description_section_def)
next
  case False
  then show ?thesis by (simp add: description_section_def)
qed

lemma author_bio_total: "\<exists>r. author_bio a = Inr r"
proof (cases "truthy (bio a)")
  case True
  from string_or_value_truthy [OF True] obtain t
    where "string_or_value (bio a) (lit ''No biography available'') = Inr t" by blast
  with True show ?thesis by (simp add: author_bio_def)
next
  case False
  then show ?thesis by (simp add: author_bio_def)
qed

text \<open>
  Claim C3, as the code renders the three shapes. A description that is a non-empty
  string is shown as that string. A description that is an object (the value wrapper) is
  shown as its \<open>value\<close> when that is a non-empty string, and as
  \<open>No description available\<close> when the wrapper has no \<open>value\<close> or a falsy one. For an
  absent description the section is not rendered at all: no fallback message is shown.
  The same holds for an author's biography, with \<open>No biography available\<close>.
\<close>

theorem description_and_biography_text:
  "(\<forall>s. s \<noteq> [] \<longrightarrow> description_section (JStr s) = Inr (Rendered (JStr s)))
   \<and> (\<forall>fs s. map_of fs (lit ''value'') = Some (JStr s) \<and> s \<noteq> [] \<longrightarrow>
         description_section (JObj fs) = Inr (Rendered (JStr s)))
   \<and> (\<forall>fs. map_of fs (lit ''value'') = None
            \<or> (\<exists>v. map_of fs (lit ''value'') = Some v \<and> truthy v = False) \<longrightarrow>
         description_section (JObj fs) = Inr (Rendered (JStr (lit ''No description available''))))
   \<and> description_section JUndefined = Inr (Omitted JUndefined)
   \<and> (\<forall>s. bio a = JStr s \<and> s \<noteq> [] \<longrightarrow>
         author_bio a = Inr (Rendered \<lparr>bio_heading = Author.name a, bio_text = JStr s\<rparr>))
   \<and> (\<forall>fs s. bio a = JObj fs \<and> map_of fs (lit ''value'') = Some (JStr s) \<and> s \<noteq> [] \<longrightarrow>
         author_bio a = Inr (Rendered \<lparr>bio_heading = Author.name a, bio_text = JStr s\<rparr>))
   \<and> (\<forall>fs. bio a = JObj fs \<and> (map_of fs (lit ''value'') = None
            \<or> (\<exists>v. map_of fs (lit ''value'') = Some v \<and> truthy v = False)) \<longrightarrow>
         author_bio a =
           Inr (Rendered \<lparr>bio_heading = Author.name a,
                          bio_text = JStr (lit ''No biography available'')\<rparr>))
   \<and> (bio a = JUndefined \<longrightarrow> author_bio a = Inr (Omitted JUndefined))"
proof -
  have d1: "\<forall>s. s \<noteq> [] \<longrightarrow> description_section (JStr s) = Inr (Rendered (JStr s))"
    by (simp add: description_section_def string_or_value_def)
  have d2: "\<forall>fs s. map_of fs (lit ''value'') = Some (JStr s) \<and> s \<noteq> [] \<longrightarrow>
         description_section (JObj fs) = Inr (Rendered (JStr s))"
    by (simp add: description_section_def string_or_value_def get_prop_def js_or_def)
  have d3: "\<forall>fs. map_of fs (lit ''value'') = None
            \<or> (\<exists>v. map_of fs (lit ''value'') = Some v \<and> truthy v = False) \<longrightarrow>
         description_section (JObj fs) = Inr (Rendered (JStr (lit ''No description available'')))"
    by (auto simp: description_section_def string_or_value_def get_prop_def js_or_def)
  have d4: "description_section JUndefined = Inr (Omitted JUndefined)"
    by (simp add: description_section_def)
  have b1: "\<forall>s. bio a = JStr s \<and> s \<noteq> [] \<longrightarrow>
         author_bio a = Inr (Rendered \<lparr>bio_heading = Author.name a, bio_text = JStr s\<rparr>)"
    by (simp add: author_bio_def string_or_value_def)
  have b2: "\<forall>fs s. bio a = JObj fs \<and> map_of fs (lit ''value'') = Some (JStr s) \<and> s \<noteq> [] \<longrightarrow>
         author_bio a = Inr (Rendered \<lparr>bio_heading = Author.name a, bio_text = JStr s\<rparr>)"
    by (simp add: author_bio_def string_or_value_def get_prop_def js_or_def)
  have b3: "\<forall>fs. bio a = JObj fs \<and> (map_of fs (lit ''value'') = None
            \<or> (\<exists>v. map_of fs (lit ''value'') = Some v \<and> truthy v = False)) \<longrightarrow>
         author_bio a =
           Inr (Rendered \<lparr>bio_heading = Author.name a,
                          bio_text = JStr (lit ''No biography available'')\<rparr>)"
    by (auto simp: author_bio_def string_or_value_def get_prop_def js_or_def)
  have b4: "bio a = JUndefined \<longrightarrow> author_bio a = Inr (Omitted JUndefined)"
    by (simp add: author_bio_def)
  from d1 d2 d3 d4 b1 b2 b3 b4 show ?thesis by blast
qed

text \<open>
  Claim C3 for an absent field fails: the example book has no description and the example
  author no biography, and for both nothing is rendered instead of a fallback message.
\<close>

theorem absent_description_no_fallback:
  "description (example_details) = JUndefined
   \<and> description_section (description example_details) = Inr (Omitted JUndefined)
   \<and> bio example_author = JUndefined
   \<and> author_bio example_author = Inr (Omitted JUndefined)"
  by (simp add: example_details_def example_author_def description_section_def author_bio_def)

text \<open>
  A description and a biography as a string, as a wrapper with a value, as a wrapper
  without one, and absent.
\<close>

theorem description_and_biography_text_witness:
  "lit ''A tale'' \<noteq> []
   \<and> description_section (JStr (lit ''A tale'')) = Inr (Rendered (JStr (lit ''A tale'')))
   \<and> map_of [(lit ''type'', JStr (lit ''/type/text'')), (lit ''value'', JStr (lit ''A tale''))]
        (lit ''value'') = Some (JStr (lit ''A tale''))
   \<and> description_section
        (JObj [(lit ''type'', JStr (lit ''/type/text'')), (lit ''value'', JStr (lit ''A tale''))])
       = Inr (Rendered (JStr (lit ''A tale'')))
   \<and> map_of [(lit ''type'', JStr (lit ''/type/text''))] (lit ''value'') = None
   \<and> description_section (JObj [(lit ''type'', JStr (lit ''/type/text''))])
       = Inr (Rendered (JStr (lit ''No description available'')))
   \<and> bio (example_author\<lparr>bio := JStr (lit ''A tale'')\<rparr>) = JStr (lit ''A tale'')
   \<and> author_bio (example_author\<lparr>bio := JStr (lit ''A tale'')\<rparr>)
       = Inr (Rendered \<lparr>bio_heading = lit ''J.R.R. Tolkien'', bio_text = JStr (lit ''A tale'')\<rparr>)
   \<and> bio (example_author\<lparr>bio := JObj [(lit ''value'', JStr (lit ''A tale''))]\<rparr>)
       = JObj [(lit ''value'', JStr (lit ''A tale''))]
   \<and> author_bio (example_author\<lparr>bio := JObj [(lit ''value'', JStr (lit ''A tale''))]\<rparr>)
       = Inr (Rendered \<lparr>bio_heading = lit ''J.R.R. Tolkien'', bio_text = JStr (lit ''A tale'')\<rparr>)
   \<and> bio (example_author\<lparr>bio := JObj []\<rparr>) = JObj []
   \<and> author_bio (example_author\<lparr>bio := JObj []\<rparr>)
       = Inr (Rendered \<lparr>bio_heading = lit ''J.R.R. Tolkien'',
                       bio_text = JStr (lit ''No biography available'')\<rparr>)
   \<and> bio example_author = JUndefined
   \<and> author_bio example_author = Inr (Omitted JUndefined)"
proof -
  have ne: "lit ''A tale'' \<noteq> []" by (simp add: lit_def)
  have m1: "map_of [(lit ''type'', JStr (lit ''/type/text'')), (lit ''value'', JStr (lit ''A tale''))]
        (lit ''value'') = Some (JStr (lit ''A tale''))"
    by (simp add: lit_def)
  have m2: "map_of [(lit ''type'', JStr (lit ''/type/text''))] (lit ''value'') = None"
    by (simp add: lit_def)
  have m3: "map_of [(lit ''value'', JStr (lit ''A tale''))] (lit ''value'') = Some (JStr (lit ''A tale''))"
    by simp
  have nm: "Author.name example_author = lit ''J.R.R. Tolkien''" by (simp add: example_author_def)
  have bu: "bio example_author = JUndefined" by (simp add: example_author_def)
  note T = description_and_biography_text
  from T [of example_author] ne
  have w1: "description_section (JStr (lit ''A tale'')) = Inr (Rendered (JStr (lit ''A tale'')))"
    by blast
  from T [of example_author] m1 ne
  have w2: "description_section
        (JObj [(lit ''type'', JStr (lit ''/type/text'')), (lit ''value'', JStr (lit ''A tale''))])
       = Inr (Rendered (JStr (lit ''A tale'')))"
    by blast
  from T [of example_author] m2
  have w3: "description_section (JObj [(lit ''type'', JStr (lit ''/type/text''))])
       = Inr (Rendered (JStr (lit ''No description available'')))"
    by blast
  from T [of "example_author\<lparr>bio := JStr (lit ''A tale'')\<rparr>"] ne nm
  have w4: "author_bio (example_author\<lparr>bio := JStr (lit ''A tale'')\<rparr>)
       = Inr (Rendered \<lparr>bio_heading = lit ''J.R.R. Tolkien'', bio_text = JStr (lit ''A tale'')\<rparr>)"
    by simp
  from T [of "example_author\<lparr>bio := JObj [(lit ''value'', JStr (lit ''A tale''))]\<rparr>"] m3 ne nm
  have w5: "author_bio (example_author\<lparr>bio := JObj [(lit ''value'', JStr (lit ''A tale''))]\<rparr>)
       = Inr (Rendered \<lparr>bio_heading = lit ''J.R.R. Tolkien'', bio_text = JStr (lit ''A tale'')\<rparr>)"
    by simp
  from T [of "example_author\<lparr>bio := JObj []\<rparr>"] nm
  have w6: "author_bio (example_author\<lparr>bio := JObj []\<rparr>)
       = Inr (Rendered \<lparr>bio_heading = lit ''J.R.R. Tolkien'',
                       bio_text = JStr (lit ''No biography available'')\<rparr>)"
    by simp
  from T [of example_author] bu
  have w7: "author_bio example_author = Inr (Omitted JUndefined)" by blast
  from ne w1 m1 w2 m2 w3 w4 w5 w6 bu w7 show ?thesis by simp
qed

subsection \<open>Loading and failure\<close>

text \<open>
  Claim C7, as the code treats the three failures. A failed search shows the fixed
  message \<open>Failed to fetch books. Please try again.\<close>, and a loading search the loading
  text. The detail page shows its loading text while either query loads; when neither
  loads and there is no book, it shows \<open>Book not found\<close> with the link \<open>Return to search\<close>
  to \<open>/\<close>. A failed author query with a resolved book is not told apart: the page shows
  the book's details, without the author line and without biographies.
\<close>

theorem failure_rendering:
  "(isError q \<longrightarrow>
      view_error (DataFetching q) = Some (lit ''Failed to fetch books. Please try again.''))
   \<and> (isLoading q \<longrightarrow> view_loading (DataFetching q) = Some (lit ''Loading books...''))
   \<and> (isLoading bookQuery \<or> isLoading authorsQuery \<longrightarrow>
        BookPage bookQuery authorsQuery = Inr (LoadingView (lit ''Loading book details...'')))
   \<and> (isLoading bookQuery = False \<and> isLoading authorsQuery = False \<and> data bookQuery = None \<longrightarrow>
        BookPage bookQuery authorsQuery =
          Inr (NotFoundView (lit ''Book not found'') (lit ''/'') (lit ''Return to search'')))
   \<and> (\<forall>book. isLoading bookQuery = False \<and> isLoading authorsQuery = False
          \<and> data bookQuery = Some book \<and> data authorsQuery = None \<longrightarrow>
        (\<exists>d. description_section (description book) = Inr d
          \<and> BookPage bookQuery authorsQuery =
              Inr (DetailsView
                    \<lparr>details_cover = BookPage_coverUrl book,
                     details_title = BookDetails.title book,
                     details_byline = None,
                     details_description = d,
                     details_bios = None\<rparr>)))"
proof -
  have e: "isError q \<longrightarrow>
      view_error (DataFetching q) = Some (lit ''Failed to fetch books. Please try again.'')"
    by (simp add: DataFetching_def)
  have l: "isLoading q \<longrightarrow> view_loading (DataFetching q) = Some (lit ''Loading books...'')"
    by (simp add: DataFetching_def)
  have pl: "isLoading bookQuery \<or> isLoading authorsQuery \<longrightarrow>
        BookPage bookQuery authorsQuery = Inr (LoadingView (lit ''Loading book details...''))"
    by (simp add: BookPage_def)
  have nf: "isLoading bookQuery = False \<and> isLoading authorsQuery = False \<and> data bookQuery = None \<longrightarrow>
        BookPage bookQuery authorsQuery =
          Inr (NotFoundView (lit ''Book not found'') (lit ''/'') (lit ''Return to search''))"
    by (simp add: BookPage_def)
  have af: "\<forall>book. isLoading bookQuery = False \<and> isLoading authorsQuery = False
          \<and> data bookQuery = Some book \<and> data authorsQuery = None \<longrightarrow>
        (\<exists>d. description_section (description book) = Inr d
          \<and> BookPage bookQuery authorsQuery =
              Inr (DetailsView
                    \<lparr>details_cover = BookPage_coverUrl book,
                     details_title = BookDetails.title book,
                     details_byline = None,
                     details_description = d,
                     details_bios = None\<rparr>))"
  proof (intro allI impI)
    fix book
    assume h: "isLoading bookQuery = False \<and> isLoading authorsQuery = False
          \<and> data bookQuery = Some book \<and> data authorsQuery = None"
    obtain d where d: "description_section (description book) = Inr d"
      using description_section_total by blast
    with h have "BookPage bookQuery authorsQuery =
              Inr (DetailsView
                    \<lparr>details_cover = BookPage_coverUrl book,
                     details_title = BookDetails.title book,
                     details_byline = None,
                     details_description = d,
                     details_bios = None\<rparr>)"
      by (simp add: BookPage_def bios_section_def BookPage_byline_def)
    with d show "\<exists>d. description_section (description book) = Inr d
          \<and> BookPage bookQuery authorsQuery =
              Inr (DetailsView
                    \<lparr>details_cover = BookPage_coverUrl book,
                     details_title = BookDetails.title book,
                     details_byline = None,
                     details_description = d,
                     details_bios = None\<rparr>)"
      by blast
  qed
  from e l pl nf af show ?thesis by blast
qed

text \<open>
  A failed and a loading search; a loading, a failed and a resolved book query, the last
  one with a failed author query.
\<close>

theorem failure_rendering_witness:
  "isError (failed :: Book list useQuery_result)
   \<and> view_error (DataFetching failed) = Some (lit ''Failed to fetch books. Please try again.'')
   \<and> isLoading (loading :: Book list useQuery_result)
   \<and> view_loading (DataFetching loading) = Some (lit ''Loading books...'')
   \<and> isLoading (loading :: BookDetails useQuery_result)
   \<and> BookPage loading idle = Inr (LoadingView (lit ''Loading book details...''))
   \<and> isLoading (failed :: BookDetails useQuery_result) = False
   \<and> isLoading (idle :: Author list useQuery_result) = False
   \<and> data (failed :: BookDetails useQuery_result) = None
   \<and> BookPage failed idle =
       Inr (NotFoundView (lit ''Book not found'') (lit ''/'') (lit ''Return to search''))
   \<and> isLoading (loaded example_details) = False
   \<and> isLoading (failed :: Author list useQuery_result) = False
   \<and> data (loaded example_details) = Some example_details
   \<and> data (failed :: Author list useQuery_result) = None
   \<and> BookPage (loaded example_details) failed =
       Inr (DetailsView
             \<lparr>details_cover = lit ''https://covers.openlibrary.org/b/id/14627509-L.jpg'',
              details_title = lit ''The Hobbit'',
              details_byline = None,
              details_description = Omitted JUndefined,
              details_bios = None\<rparr>)"
proof -
  have c: "BookPage_coverUrl example_details = lit ''https://covers.openlibrary.org/b/id/14627509-L.jpg''"
    by (simp add: BookPage_coverUrl_def example_details_def number_truthy_def lit_def)
  have d: "description_section (description example_details) = Inr (Omitted JUndefined)"
    by (simp add: description_section_def example_details_def)
  have t: "BookDetails.title example_details = lit ''The Hobbit''"
    by (simp add: example_details_def)
  from failure_rendering [of "failed :: Book list useQuery_result" loading idle]
  have w1: "view_error (DataFetching failed) = Some (lit ''Failed to fetch books. Please try again.'')"
    and w3: "BookPage loading idle = Inr (LoadingView (lit ''Loading book details...''))"
    by (simp_all add: failed_def loading_def)
  from failure_rendering [of "loading :: Book list useQuery_result" failed idle]
  have w2: "view_loading (DataFetching loading) = Some (lit ''Loading books...'')"
    and w4: "BookPage failed idle =
       Inr (NotFoundView (lit ''Book not found'') (lit ''/'') (lit ''Return to search''))"
    by (simp_all add: failed_def loading_def idle_def)
  from failure_rendering [of "loading :: Book list useQuery_result" "loaded example_details" failed]
    c d t
  have w5: "BookPage (loaded example_details) failed =
       Inr (DetailsView
             \<lparr>details_cover = lit ''https://covers.openlibrary.org/b/id/14627509-L.jpg'',
              details_title = lit ''The Hobbit'',
              details_byline = None,
              details_description = Omitted JUndefined,
              details_bios = None\<rparr>)"
    by (simp add: failed_def loaded_def)
  from w1 w2 w3 w4 w5 show ?thesis
    by (simp add: failed_def loading_def idle_def loaded_def)
qed

text \<open>
  Claim C7 for the failed author fetch fails: with the example book resolved and the
  author query failed, the page shows the book's details and not the not-found message.
\<close>

theorem failed_author_fetch_renders_details:
  "data (failed :: Author list useQuery_result) = None
   \<and> isError (failed :: Author list useQuery_result)
   \<and> BookPage (loaded example_details) failed =
       Inr (DetailsView
             \<lparr>details_cover = lit ''https://covers.openlibrary.org/b/id/14627509-L.jpg'',
              details_title = lit ''The Hobbit'',
              details_byline = None,
              details_description = Omitted JUndefined,
              details_bios = None\<rparr>)
   \<and> BookPage (loaded example_details) failed \<noteq>
       Inr (NotFoundView (lit ''Book not found'') (lit ''/'') (lit ''Return to search''))"
  by (simp add: BookPage_def failed_def loaded_def description_section_def example_details_def
      bios_section_def BookPage_byline_def BookPage_coverUrl_def number_truthy_def lit_def)

end
